theory Spec2Isabelle
  imports Complex_Main "HOL-Library.Monad_Syntax"
begin

section \<open>Doubles\<close>

text \<open>
  A C++ \<^verbatim>\<open>double\<close> is an exact real number or one of the three special values of
  IEEE 754: not-a-number and the two infinities. The operations \<open>+\<close>, \<open>-\<close>, \<open>*\<close> and \<open>/\<close>
  follow IEEE 754 on the special values and are exact on the finite ones: there is no
  rounding, no overflow and no signed zero (a nonzero finite number divided by zero is the
  infinity of the sign of the numerator). Every comparison with \<open>NaN\<close> is false. The
  operations \<open>fadd\<close>, \<open>fsub\<close>, \<open>fmul\<close> and \<open>fdiv\<close> below add the range of a double to
  the exact ones.
\<close>

datatype double = NaN | MInf | Fin real | PInf

instantiation double :: "{comm_monoid_add, one, uminus, minus, times, inverse, abs, ord}"
begin

definition zero_double :: double where
  "zero_double = Fin 0"

definition one_double :: double where
  "one_double = Fin 1"

fun uminus_double :: "double \<Rightarrow> double" where
  "uminus_double NaN = NaN"
| "uminus_double MInf = PInf"
| "uminus_double (Fin a) = Fin (- a)"
| "uminus_double PInf = MInf"

fun plus_double :: "double \<Rightarrow> double \<Rightarrow> double" where
  "plus_double NaN b = NaN"
| "plus_double a NaN = NaN"
| "plus_double (Fin a) (Fin b) = Fin (a + b)"
| "plus_double PInf MInf = NaN"
| "plus_double MInf PInf = NaN"
| "plus_double PInf b = PInf"
| "plus_double a PInf = PInf"
| "plus_double MInf b = MInf"
| "plus_double a MInf = MInf"

definition minus_double :: "double \<Rightarrow> double \<Rightarrow> double" where
  "minus_double a b = a + (- b)"

fun times_double :: "double \<Rightarrow> double \<Rightarrow> double" where
  "times_double NaN b = NaN"
| "times_double a NaN = NaN"
| "times_double (Fin a) (Fin b) = Fin (a * b)"
| "times_double (Fin a) PInf = (if a = 0 then NaN else if 0 < a then PInf else MInf)"
| "times_double (Fin a) MInf = (if a = 0 then NaN else if 0 < a then MInf else PInf)"
| "times_double PInf (Fin b) = (if b = 0 then NaN else if 0 < b then PInf else MInf)"
| "times_double MInf (Fin b) = (if b = 0 then NaN else if 0 < b then MInf else PInf)"
| "times_double PInf PInf = PInf"
| "times_double PInf MInf = MInf"
| "times_double MInf PInf = MInf"
| "times_double MInf MInf = PInf"

fun divide_double :: "double \<Rightarrow> double \<Rightarrow> double" where
  "divide_double NaN b = NaN"
| "divide_double a NaN = NaN"
| "divide_double (Fin a) (Fin b) =
     (if b \<noteq> 0 then Fin (a / b) else if a = 0 then NaN else if 0 < a then PInf else MInf)"
| "divide_double (Fin a) PInf = Fin 0"
| "divide_double (Fin a) MInf = Fin 0"
| "divide_double PInf (Fin b) = (if 0 \<le> b then PInf else MInf)"
| "divide_double MInf (Fin b) = (if 0 \<le> b then MInf else PInf)"
| "divide_double a b = NaN"

definition inverse_double :: "double \<Rightarrow> double" where
  "inverse_double a = Fin 1 div a"

fun abs_double :: "double \<Rightarrow> double" where
  "abs_double NaN = NaN"
| "abs_double MInf = PInf"
| "abs_double (Fin a) = Fin \<bar>a\<bar>"
| "abs_double PInf = PInf"

fun less_double :: "double \<Rightarrow> double \<Rightarrow> bool" where
  "less_double NaN b = False"
| "less_double a NaN = False"
| "less_double (Fin a) (Fin b) = (a < b)"
| "less_double MInf MInf = False"
| "less_double MInf b = True"
| "less_double a MInf = False"
| "less_double PInf b = False"
| "less_double a PInf = True"

definition less_eq_double :: "double \<Rightarrow> double \<Rightarrow> bool" where
  "less_eq_double a b = (a < b \<or> (a = b \<and> a \<noteq> NaN))"

instance
proof
  fix a b c :: double
  show "a + b + c = a + (b + c)"
    by (cases a; cases b; cases c; simp)
  show "a + b = b + a"
    by (cases a; cases b; simp)
  show "0 + a = a"
    by (cases a; simp add: zero_double_def)
qed

end

text \<open>\<^verbatim>\<open>std::max(a, b)\<close> is \<^verbatim>\<open>(a < b) ? b : a\<close> and \<^verbatim>\<open>std::min(a, b)\<close> is
  \<^verbatim>\<open>(b < a) ? b : a\<close>: with a \<open>NaN\<close> argument both return the first argument.\<close>

definition std_max :: "double \<Rightarrow> double \<Rightarrow> double" where
  "std_max a b = (if a < b then b else a)"

definition std_min :: "double \<Rightarrow> double \<Rightarrow> double" where
  "std_min a b = (if b < a then b else a)"


text \<open>\<^verbatim>\<open>is_finite\<close> of \<^verbatim>\<open>tools/Infinity.hpp\<close>: neither infinite nor \<open>NaN\<close>.\<close>

fun is_finite :: "double \<Rightarrow> bool" where
  "is_finite (Fin a) = True"
| "is_finite a = False"

text \<open>\<^verbatim>\<open>std::numeric_limits<double>::epsilon()\<close>.\<close>

definition machine_epsilon :: double where
  "machine_epsilon = Fin (1 / 2 ^ 52)"


definition overflow_threshold :: real where
  "overflow_threshold = 2 ^ 1024 - 2 ^ 970"

definition underflow_threshold :: real where
  "underflow_threshold = 1 / 2 ^ 1075"

fun overflow :: "double \<Rightarrow> double" where
  "overflow (Fin a) =
     (if overflow_threshold \<le> a then PInf else if a \<le> - overflow_threshold then MInf else Fin a)"
| "overflow a = a"

fun underflow :: "double \<Rightarrow> double" where
  "underflow (Fin a) = (if \<bar>a\<bar> \<le> underflow_threshold then Fin 0 else Fin a)"
| "underflow a = a"

definition fadd :: "double \<Rightarrow> double \<Rightarrow> double" where
  "fadd a b = overflow (a + b)"

definition fsub :: "double \<Rightarrow> double \<Rightarrow> double" where
  "fsub a b = overflow (a - b)"

definition fmul :: "double \<Rightarrow> double \<Rightarrow> double" where
  "fmul a b = overflow (underflow (a * b))"


section \<open>Interior-point subproblem: data\<close>

record Interval =
  lb :: double
  ub :: double

record Parameters =
  tau_min :: double
  k_sigma :: double
  regularization_exponent :: double
  small_direction_factor :: double
  push_variable_to_interior_k1 :: double
  push_variable_to_interior_k2 :: double

text \<open>\<^verbatim>\<open>PrimalDualInteriorPointSubproblem::push_variable_to_interior\<close>; the first argument
  holds the member \<^verbatim>\<open>this->parameters\<close>, and \<open>range'\<close> is the local \<^verbatim>\<open>range\<close>. The
  arithmetic has the range of doubles.\<close>

definition push_variable_to_interior :: "Parameters \<Rightarrow> double \<Rightarrow> Interval \<Rightarrow> double" where
  "push_variable_to_interior params variable_value variable_bounds =
     (let range' = fsub (ub variable_bounds) (lb variable_bounds);
          perturbation_lb = std_min
            (fmul (push_variable_to_interior_k1 params) (std_max (Fin 1) \<bar>lb variable_bounds\<bar>))
            (fmul (push_variable_to_interior_k2 params) range');
          perturbation_ub = std_min
            (fmul (push_variable_to_interior_k1 params) (std_max (Fin 1) \<bar>ub variable_bounds\<bar>))
            (fmul (push_variable_to_interior_k2 params) range');
          variable_value = std_max variable_value (fadd (lb variable_bounds) perturbation_lb);
          variable_value = std_min variable_value (fsub (ub variable_bounds) perturbation_ub)
      in variable_value)"


record Multipliers =
  constraints :: "double list"
  lower_bounds :: "double list"
  upper_bounds :: "double list"

text \<open>The member \<^verbatim>\<open>evaluations\<close> of an iterate and of the subproblem: only the constraint
  values \<^verbatim>\<open>evaluations.constraints\<close> are read by the functions below.\<close>

record Evaluations =
  evaluations_constraints :: "double list"

record Iterate =
  primals :: "double list"
  multipliers :: Multipliers
  evaluations :: Evaluations
  is_objective_gradient_computed :: bool
  are_constraints_computed :: bool
  is_constraint_jacobian_computed :: bool

text \<open>
  \<^verbatim>\<open>NonlinearProblem\<close>. The pure virtual bound accessors are function-valued fields. Of the
  model behind \<^verbatim>\<open>problem.model\<close> the record keeps what \<^verbatim>\<open>initialize\<close> reads: the slack map
  \<^verbatim>\<open>model.slacks\<close> as (constraint index, slack index) pairs in iteration order, the
  constraint function \<^verbatim>\<open>model.evaluate_constraints\<close> and \<^verbatim>\<open>model.number_variables\<close>.
\<close>

record NonlinearProblem =
  number_variables :: nat
  number_constraints :: nat
  inequality_constraints :: "nat list"
  lower_bounded_variables :: "nat list"
  upper_bounded_variables :: "nat list"
  get_variable_lower_bound :: "nat \<Rightarrow> double"
  get_variable_upper_bound :: "nat \<Rightarrow> double"
  model_slacks :: "(nat \<times> nat) list"
  model_evaluate_constraints :: "double list \<Rightarrow> double list"
  model_number_variables :: nat

record Direction =
  direction_number_variables :: nat
  direction_number_constraints :: nat
  direction_primals :: "double list"
  direction_multipliers :: Multipliers
  primal_dual_step_length :: double
  bound_dual_step_length :: double
  subproblem_objective :: double

text \<open>
  The object \<^verbatim>\<open>*this\<close> of \<^verbatim>\<open>PrimalDualInteriorPointSubproblem\<close>. \<open>barrier_parameter\<close> is the
  value behind \<^verbatim>\<open>barrier_parameter_update_strategy.get_barrier_parameter()\<close> and
  \<^verbatim>\<open>set_barrier_parameter\<close>. Three collaborators whose code is outside the repository
  excerpt are function-valued fields: \<open>least_square_multipliers\<close> gives the constraint
  multipliers that \<^verbatim>\<open>Preprocessing::compute_least_square_multipliers\<close> writes into its
  argument \<^verbatim>\<open>iterate.multipliers.constraints\<close>; \<open>objective_gradient_dot\<close> is
  \<^verbatim>\<open>dot(v, evaluations.objective_gradient)\<close>; \<open>hessian_quadratic_product\<close> is
  \<^verbatim>\<open>hessian_model->hessian->quadratic_product\<close>.
\<close>

record PrimalDualInteriorPointSubproblem =
  barrier_parameter :: double
  previous_barrier_parameter :: double
  default_multiplier :: double
  parameters :: Parameters
  solving_feasibility_problem :: bool
  subproblem_definition_changed :: bool
  subproblem_evaluations :: Evaluations
  augmented_system_solution :: "double list"
  lower_delta_z :: "double list"
  upper_delta_z :: "double list"
  direction :: Direction
  least_square_multipliers :: "NonlinearProblem \<Rightarrow> Iterate \<Rightarrow> double list"
  objective_gradient_dot :: "double list \<Rightarrow> double"
  hessian_quadratic_product :: "double list \<Rightarrow> double list \<Rightarrow> double"

section \<open>Interior-point subproblem: operations\<close>

text \<open>
  An \<^verbatim>\<open>assert\<close> that fails aborts the program: a function with an assertion returns an
  option, and \<open>None\<close> is the abort. A loop whose body can abort is \<open>fold_option\<close>.
  Reading a vector outside its range is undefined behaviour in C++ and unspecified here
  (\<open>xs ! i\<close>); the theorems below assume the indices in range.
\<close>

fun fold_option :: "('a \<Rightarrow> 's \<Rightarrow> 's option) \<Rightarrow> 'a list \<Rightarrow> 's \<Rightarrow> 's option" where
  "fold_option f [] s = Some s"
| "fold_option f (x # xs) s = (case f x s of None \<Rightarrow> None | Some s' \<Rightarrow> fold_option f xs s')"


text \<open>Modelled from the spec: \<^verbatim>\<open>initialize_vector\<close> of \<^verbatim>\<open>linear_algebra/Vector.hpp\<close> (not among
  the source files) fills a vector with a value and keeps its size.\<close>

definition initialize_vector :: "double list \<Rightarrow> double \<Rightarrow> double list" where
  "initialize_vector v a = map (\<lambda>_. a) v"

text \<open>Modelled from the spec: \<^verbatim>\<open>Iterate::evaluate_constraints\<close> (\<^verbatim>\<open>optimization/Iterate.hpp\<close> is not
  among the source files). Each cache carries a validity flag: the constraints are
  evaluated at the primals unless the cache is valid.\<close>

definition evaluate_constraints :: "NonlinearProblem \<Rightarrow> Iterate \<Rightarrow> Iterate" where
  "evaluate_constraints problem iterate =
     (if are_constraints_computed iterate then iterate
      else iterate\<lparr>evaluations := (evaluations iterate)
             \<lparr>evaluations_constraints := model_evaluate_constraints problem (primals iterate)\<rparr>,
           are_constraints_computed := True\<rparr>)"

text \<open>\<^verbatim>\<open>PrimalDualInteriorPointSubproblem::compute_least_square_multipliers\<close>: the reset of the
  augmented matrix is workspace, the multipliers come from the collaborator.\<close>

definition compute_least_square_multipliers ::
  "PrimalDualInteriorPointSubproblem \<Rightarrow> NonlinearProblem \<Rightarrow> Iterate \<Rightarrow> Iterate" where
  "compute_least_square_multipliers self problem iterate =
     iterate\<lparr>multipliers := (multipliers iterate)
       \<lparr>constraints := least_square_multipliers self problem iterate\<rparr>\<rparr>"

text \<open>\<^verbatim>\<open>PrimalDualInteriorPointSubproblem::initialize\<close>, without the statistics columns.\<close>

definition initialize ::
  "PrimalDualInteriorPointSubproblem \<Rightarrow> NonlinearProblem \<Rightarrow> Iterate \<Rightarrow> Iterate option" where
  "initialize self problem first_iterate =
     (if inequality_constraints problem \<noteq> [] then None
      else
        let first_iterate = evaluate_constraints problem first_iterate;
            first_iterate = fold (\<lambda>i first_iterate.
                let bounds = \<lparr>lb = get_variable_lower_bound problem i,
                              ub = get_variable_upper_bound problem i\<rparr>
                in first_iterate\<lparr>primals := (primals first_iterate)
                     [i := push_variable_to_interior (parameters self)
                             (primals first_iterate ! i) bounds]\<rparr>)
              [0..<number_variables problem] first_iterate;
            first_iterate =
              (if model_slacks problem \<noteq> [] then
                 fold (\<lambda>(j, slack_index) first_iterate.
                     let bounds = \<lparr>lb = get_variable_lower_bound problem slack_index,
                                   ub = get_variable_upper_bound problem slack_index\<rparr>
                     in first_iterate\<lparr>primals := (primals first_iterate)
                          [slack_index := push_variable_to_interior (parameters self)
                             (evaluations_constraints (evaluations first_iterate) ! j) bounds]\<rparr>)
                   (model_slacks problem) first_iterate
               else first_iterate);
            first_iterate = first_iterate\<lparr>is_objective_gradient_computed := False,
              are_constraints_computed := False, is_constraint_jacobian_computed := False\<rparr>;
            first_iterate = fold (\<lambda>i first_iterate.
                first_iterate\<lparr>multipliers := (multipliers first_iterate)
                  \<lparr>lower_bounds := (lower_bounds (multipliers first_iterate))
                     [i := default_multiplier self]\<rparr>\<rparr>)
              (lower_bounded_variables problem) first_iterate;
            first_iterate = fold (\<lambda>i first_iterate.
                first_iterate\<lparr>multipliers := (multipliers first_iterate)
                  \<lparr>upper_bounds := (upper_bounds (multipliers first_iterate))
                     [i := - default_multiplier self]\<rparr>\<rparr>)
              (upper_bounded_variables problem) first_iterate
        in Some (if 0 < number_constraints problem
                 then compute_least_square_multipliers self problem first_iterate
                 else first_iterate))"

text \<open>\<^verbatim>\<open>PrimalDualInteriorPointSubproblem::relax_variable_bounds\<close>: both loops have a test with an
  empty body. The problem and the iterate are passed by constant reference, so the object
  \<^verbatim>\<open>*this\<close> is all the function could change.\<close>

definition relax_variable_bounds ::
  "PrimalDualInteriorPointSubproblem \<Rightarrow> NonlinearProblem \<Rightarrow> Iterate
     \<Rightarrow> PrimalDualInteriorPointSubproblem" where
  "relax_variable_bounds self problem current_iterate =
     (let self = fold (\<lambda>i self.
              if primals current_iterate ! i - get_variable_lower_bound problem i
                   < machine_epsilon * barrier_parameter self
              then self else self)
            (lower_bounded_variables problem) self;
          self = fold (\<lambda>i self.
              if get_variable_upper_bound problem i - primals current_iterate ! i
                   < machine_epsilon * barrier_parameter self
              then self else self)
            (upper_bounded_variables problem) self
      in self)"




text \<open>The elastic variables of the relaxed problem: two partial maps from a constraint index
  to the index of its elastic variable, as lists of pairs with distinct keys.\<close>

record ElasticVariables =
  positive :: "(nat \<times> nat) list"
  negative :: "(nat \<times> nat) list"




text \<open>\<^verbatim>\<open>PrimalDualInteriorPointSubproblem::primal_fraction_to_boundary\<close>.\<close>

definition primal_fraction_to_boundary ::
  "PrimalDualInteriorPointSubproblem \<Rightarrow> NonlinearProblem \<Rightarrow> Iterate \<Rightarrow> double
     \<Rightarrow> double option" where
  "primal_fraction_to_boundary self problem current_iterate tau =
     (let primal_length = Fin 1;
          primal_length = fold (\<lambda>i primal_length.
              if augmented_system_solution self ! i < Fin 0 then
                let trial_alpha_xi =
                      (- tau) * (primals current_iterate ! i - get_variable_lower_bound problem i)
                        / augmented_system_solution self ! i
                in if Fin 0 < trial_alpha_xi then std_min primal_length trial_alpha_xi
                   else primal_length
              else primal_length)
            (lower_bounded_variables problem) primal_length;
          primal_length = fold (\<lambda>i primal_length.
              if Fin 0 < augmented_system_solution self ! i then
                let trial_alpha_xi =
                      (- tau) * (primals current_iterate ! i - get_variable_upper_bound problem i)
                        / augmented_system_solution self ! i
                in if Fin 0 < trial_alpha_xi then std_min primal_length trial_alpha_xi
                   else primal_length
              else primal_length)
            (upper_bounded_variables problem) primal_length
      in if Fin 0 < primal_length \<and> primal_length \<le> Fin 1 then Some primal_length else None)"

text \<open>\<^verbatim>\<open>PrimalDualInteriorPointSubproblem::dual_fraction_to_boundary\<close>.\<close>

definition dual_fraction_to_boundary ::
  "PrimalDualInteriorPointSubproblem \<Rightarrow> NonlinearProblem \<Rightarrow> Iterate \<Rightarrow> double
     \<Rightarrow> double option" where
  "dual_fraction_to_boundary self problem current_iterate tau =
     (let dual_length = Fin 1;
          dual_length = fold (\<lambda>i dual_length.
              if lower_delta_z self ! i < Fin 0 then
                let trial_alpha_zj =
                      (- tau) * lower_bounds (multipliers current_iterate) ! i
                        / lower_delta_z self ! i
                in if Fin 0 < trial_alpha_zj then std_min dual_length trial_alpha_zj
                   else dual_length
              else dual_length)
            (lower_bounded_variables problem) dual_length;
          dual_length = fold (\<lambda>i dual_length.
              if Fin 0 < upper_delta_z self ! i then
                let trial_alpha_zj =
                      (- tau) * upper_bounds (multipliers current_iterate) ! i
                        / upper_delta_z self ! i
                in if Fin 0 < trial_alpha_zj then std_min dual_length trial_alpha_zj
                   else dual_length
              else dual_length)
            (upper_bounded_variables problem) dual_length
      in if Fin 0 < dual_length \<and> dual_length \<le> Fin 1 then Some dual_length else None)"

text \<open>\<^verbatim>\<open>PrimalDualInteriorPointSubproblem::compute_bound_dual_direction\<close>.\<close>

definition compute_bound_dual_direction ::
  "PrimalDualInteriorPointSubproblem \<Rightarrow> NonlinearProblem \<Rightarrow> Iterate
     \<Rightarrow> PrimalDualInteriorPointSubproblem option" where
  "compute_bound_dual_direction self problem current_iterate =
     (let self = self\<lparr>lower_delta_z := initialize_vector (lower_delta_z self) (Fin 0)\<rparr>;
          self = self\<lparr>upper_delta_z := initialize_vector (upper_delta_z self) (Fin 0)\<rparr>
      in case fold_option (\<lambda>i self.
                let distance_to_bound =
                      primals current_iterate ! i - get_variable_lower_bound problem i;
                    self = self\<lparr>lower_delta_z := (lower_delta_z self)
                      [i := (barrier_parameter self - augmented_system_solution self ! i
                               * lower_bounds (multipliers current_iterate) ! i)
                             / distance_to_bound
                           - lower_bounds (multipliers current_iterate) ! i]\<rparr>
                in if is_finite (lower_delta_z self ! i) then Some self else None)
              (lower_bounded_variables problem) self of
           None \<Rightarrow> None
         | Some self \<Rightarrow>
             fold_option (\<lambda>i self.
                let distance_to_bound =
                      primals current_iterate ! i - get_variable_upper_bound problem i;
                    self = self\<lparr>upper_delta_z := (upper_delta_z self)
                      [i := (barrier_parameter self - augmented_system_solution self ! i
                               * upper_bounds (multipliers current_iterate) ! i)
                             / distance_to_bound
                           - upper_bounds (multipliers current_iterate) ! i]\<rparr>
                in if is_finite (upper_delta_z self ! i) then Some self else None)
              (upper_bounded_variables problem) self)"

text \<open>\<^verbatim>\<open>PrimalDualInteriorPointSubproblem::evaluate_subproblem_objective\<close>.\<close>

definition evaluate_subproblem_objective :: "PrimalDualInteriorPointSubproblem \<Rightarrow> double" where
  "evaluate_subproblem_objective self =
     (let linear_term = objective_gradient_dot self (direction_primals (direction self));
          quadratic_term = hessian_quadratic_product self (direction_primals (direction self))
            (direction_primals (direction self)) / Fin 2
      in linear_term + quadratic_term)"

text \<open>\<^verbatim>\<open>PrimalDualInteriorPointSubproblem::generate_primal_dual_direction\<close>.
  \<^verbatim>\<open>Direction::set_dimensions\<close> stores the two dimensions. The two step lengths are kept in
  locals (written with a prime) until the end, as in the source.\<close>

definition generate_primal_dual_direction ::
  "PrimalDualInteriorPointSubproblem \<Rightarrow> NonlinearProblem \<Rightarrow> Iterate
     \<Rightarrow> PrimalDualInteriorPointSubproblem option" where
  "generate_primal_dual_direction self problem current_iterate =
     (let self = self\<lparr>direction := (direction self)
            \<lparr>direction_number_variables := number_variables problem,
             direction_number_constraints := number_constraints problem\<rparr>\<rparr>;
          self = fold (\<lambda>j self. self\<lparr>augmented_system_solution := (augmented_system_solution self)
                   [j := - (augmented_system_solution self ! j)]\<rparr>)
            [number_variables problem..<length (augmented_system_solution self)] self;
          tau = std_max (tau_min (parameters self)) (Fin 1 - barrier_parameter self)
      in case primal_fraction_to_boundary self problem current_iterate tau of
           None \<Rightarrow> None
         | Some primal_dual_step_length' \<Rightarrow>
             let self = fold (\<lambda>i self. self\<lparr>direction := (direction self)
                     \<lparr>direction_primals := (direction_primals (direction self))
                        [i := augmented_system_solution self ! i]\<rparr>\<rparr>)
                   [0..<number_variables problem] self;
                 self = fold (\<lambda>j self. self\<lparr>direction := (direction self)
                     \<lparr>direction_multipliers := (direction_multipliers (direction self))
                        \<lparr>constraints := (constraints (direction_multipliers (direction self)))
                           [j := augmented_system_solution self ! (number_variables problem + j)]\<rparr>\<rparr>\<rparr>)
                   [0..<number_constraints problem] self
             in case compute_bound_dual_direction self problem current_iterate of
                  None \<Rightarrow> None
                | Some self \<Rightarrow>
                    (case dual_fraction_to_boundary self problem current_iterate tau of
                       None \<Rightarrow> None
                     | Some bound_dual_step_length' \<Rightarrow>
                         let self = fold (\<lambda>i self. self\<lparr>direction := (direction self)
                                 \<lparr>direction_multipliers := (direction_multipliers (direction self))
                                    \<lparr>lower_bounds :=
                                       (lower_bounds (direction_multipliers (direction self)))
                                         [i := lower_delta_z self ! i],
                                     upper_bounds :=
                                       (upper_bounds (direction_multipliers (direction self)))
                                         [i := upper_delta_z self ! i]\<rparr>\<rparr>\<rparr>)
                               [0..<number_variables problem] self;
                             self = self\<lparr>direction := (direction self)
                               \<lparr>primal_dual_step_length := primal_dual_step_length'\<rparr>\<rparr>;
                             self = self\<lparr>direction := (direction self)
                               \<lparr>bound_dual_step_length := bound_dual_step_length'\<rparr>\<rparr>
                         in Some (self\<lparr>direction := (direction self)
                              \<lparr>subproblem_objective := evaluate_subproblem_objective self\<rparr>\<rparr>)))"

text \<open>\<^verbatim>\<open>PrimalDualInteriorPointSubproblem::postprocess_iterate\<close>; the messages of the debug and
  warning streams are left out, so the branch with the bounds in the wrong order changes
  nothing. The locals \<^verbatim>\<open>lb\<close> and \<^verbatim>\<open>ub\<close> are \<open>lb'\<close> and \<open>ub'\<close>.\<close>

definition postprocess_iterate ::
  "PrimalDualInteriorPointSubproblem \<Rightarrow> NonlinearProblem \<Rightarrow> Iterate \<Rightarrow> Iterate" where
  "postprocess_iterate self problem iterate =
     (let iterate = fold (\<lambda>i iterate.
              let coefficient = barrier_parameter self
                    / (primals iterate ! i - get_variable_lower_bound problem i);
                  lb' = coefficient / k_sigma (parameters self);
                  ub' = coefficient * k_sigma (parameters self)
              in if lb' \<le> ub' then
                   iterate\<lparr>multipliers := (multipliers iterate)
                     \<lparr>lower_bounds := (lower_bounds (multipliers iterate))
                        [i := std_max (std_min (lower_bounds (multipliers iterate) ! i) ub') lb']\<rparr>\<rparr>
                 else iterate)
            (lower_bounded_variables problem) iterate;
          iterate = fold (\<lambda>i iterate.
              let coefficient = barrier_parameter self
                    / (primals iterate ! i - get_variable_upper_bound problem i);
                  lb' = coefficient * k_sigma (parameters self);
                  ub' = coefficient / k_sigma (parameters self)
              in if lb' \<le> ub' then
                   iterate\<lparr>multipliers := (multipliers iterate)
                     \<lparr>upper_bounds := (upper_bounds (multipliers iterate))
                        [i := std_max (std_min (upper_bounds (multipliers iterate) ! i) ub') lb']\<rparr>\<rparr>
                 else iterate)
            (upper_bounded_variables problem) iterate
      in iterate)"

text \<open>The invariant of an interior-point iterate in the words of the spec: every
  lower-bounded variable is strictly above its lower bound, every upper-bounded variable
  strictly below its upper bound, and the bound multipliers of the variables satisfy
  \<open>z_L \<ge> 0\<close> and \<open>z_U \<le> 0\<close>.\<close>

definition interior_invariant :: "NonlinearProblem \<Rightarrow> Iterate \<Rightarrow> bool" where
  "interior_invariant problem iterate =
     ((\<forall>i\<in>set (lower_bounded_variables problem).
          get_variable_lower_bound problem i < primals iterate ! i)
      \<and> (\<forall>i\<in>set (upper_bounded_variables problem).
          primals iterate ! i < get_variable_upper_bound problem i)
      \<and> (\<forall>i<number_variables problem. Fin 0 \<le> lower_bounds (multipliers iterate) ! i)
      \<and> (\<forall>i<number_variables problem. upper_bounds (multipliers iterate) ! i \<le> Fin 0))"

section \<open>Inequality-constrained methods: bounds of the direction\<close>

text \<open>\<^verbatim>\<open>OptimizationProblem\<close> as \<^verbatim>\<open>InequalityConstrainedMethod::set_direction_bounds\<close> reads it;
  \<open>optimization_number_variables\<close> is its member \<^verbatim>\<open>number_variables\<close>.\<close>

record OptimizationProblem =
  get_number_original_variables :: nat
  optimization_number_variables :: nat
  variable_lower_bound :: "nat \<Rightarrow> double"
  variable_upper_bound :: "nat \<Rightarrow> double"

record InequalityConstrainedMethod =
  trust_region_radius :: double
  direction_lower_bounds :: "double list"
  direction_upper_bounds :: "double list"

text \<open>\<^verbatim>\<open>InequalityConstrainedMethod::set_direction_bounds\<close>.\<close>

definition set_direction_bounds ::
  "InequalityConstrainedMethod \<Rightarrow> OptimizationProblem \<Rightarrow> Iterate \<Rightarrow> InequalityConstrainedMethod" where
  "set_direction_bounds self problem current_iterate =
     (let self = fold (\<lambda>variable_index self.
              let self = self\<lparr>direction_lower_bounds := (direction_lower_bounds self)
                    [variable_index := std_max (- trust_region_radius self)
                       (variable_lower_bound problem variable_index
                          - primals current_iterate ! variable_index)]\<rparr>
              in self\<lparr>direction_upper_bounds := (direction_upper_bounds self)
                    [variable_index := std_min (trust_region_radius self)
                       (variable_upper_bound problem variable_index
                          - primals current_iterate ! variable_index)]\<rparr>)
            [0..<get_number_original_variables problem] self;
          self = fold (\<lambda>variable_index self.
              let self = self\<lparr>direction_lower_bounds := (direction_lower_bounds self)
                    [variable_index := variable_lower_bound problem variable_index
                          - primals current_iterate ! variable_index]\<rparr>
              in self\<lparr>direction_upper_bounds := (direction_upper_bounds self)
                    [variable_index := variable_upper_bound problem variable_index
                          - primals current_iterate ! variable_index]\<rparr>)
            [get_number_original_variables problem..<optimization_number_variables problem] self
      in self)"

section \<open>The active-set method of \<^verbatim>\<open>src/base\<close>\<close>

text \<open>
  The files under \<^verbatim>\<open>src/base\<close> use their own \<^verbatim>\<open>Problem\<close>, \<^verbatim>\<open>Iterate\<close> and \<^verbatim>\<open>Direction\<close>. Their
  members carry a prefix here, since a record field is a constant of the theory:
  \<open>it_x\<close> is \<^verbatim>\<open>Iterate::x\<close>, \<open>dir_x\<close> is \<^verbatim>\<open>Direction::x\<close>, and so on. The structure \<^verbatim>\<open>Range\<close> of
  two doubles \<^verbatim>\<open>lb\<close> and \<^verbatim>\<open>ub\<close> is \<open>Interval\<close>.

  Modelled from the spec: \<^verbatim>\<open>SparseVector\<close> (\<^verbatim>\<open>Vector.hpp\<close> is not among the source files), a
  sparse map from an index to a value. It is a list of pairs with distinct indices;
  \<open>sparse_at\<close> is the component at an index (0 when absent), and \<open>sparse_update f i\<close> is
  what \<^verbatim>\<open>v[i] -= d\<close> and \<^verbatim>\<open>v[i] += d\<close> do: a missing entry is created with 0, then changed.
\<close>

type_synonym SparseVector = "(nat \<times> double) list"

definition sparse_at :: "SparseVector \<Rightarrow> nat \<Rightarrow> double" where
  "sparse_at v i = (case map_of v i of None \<Rightarrow> Fin 0 | Some a \<Rightarrow> a)"

fun sparse_update :: "(double \<Rightarrow> double) \<Rightarrow> nat \<Rightarrow> SparseVector \<Rightarrow> SparseVector" where
  "sparse_update f i [] = [(i, f (Fin 0))]"
| "sparse_update f i ((k, a) # v) =
     (if k = i then (k, f a) # v else (k, a) # sparse_update f i v)"

datatype ConstraintFeasibility = FEASIBLE | INFEASIBLE_LOWER | INFEASIBLE_UPPER

datatype Phase = OPTIMALITY | RESTORATION

record ConstraintPartition =
  feasible :: "nat list"
  infeasible :: "nat list"
  constraint_feasibility :: "ConstraintFeasibility list"

record Problem =
  problem_number_variables :: nat
  problem_number_constraints :: nat
  constraint_bounds :: "Interval list"
  objective_sign :: double

record ActiveConstraints =
  at_lower_bound :: "nat set"
  at_upper_bound :: "nat set"

record ActiveSet =
  active_set_constraints :: ActiveConstraints
  active_set_bounds :: ActiveConstraints

record Iterate_base =
  it_x :: "double list"
  it_multipliers :: Multipliers
  it_constraints :: "double list"
  it_constraints_jacobian :: "SparseVector list"
  it_objective_gradient :: SparseVector

text \<open>The member \<^verbatim>\<open>predicted_reduction\<close> of a direction, a pointer to a member function of the
  subproblem, is not part of the record.\<close>

record Direction_base =
  dir_x :: "double list"
  dir_multipliers :: Multipliers
  dir_active_set :: ActiveSet
  dir_objective :: double
  dir_objective_multiplier :: double
  dir_phase :: Phase
  dir_constraint_partition :: ConstraintPartition

text \<open>The object \<^verbatim>\<open>*this\<close> of \<^verbatim>\<open>ActiveSetMethod\<close>: the bounds of the variables (member
  \<^verbatim>\<open>bounds\<close> of \<^verbatim>\<open>Subproblem\<close>) and the counter of subproblems.\<close>

record ActiveSetMethod =
  subproblem_bounds :: "Interval list"
  number_subproblems_solved :: nat

text \<open>The external solver \<^verbatim>\<open>QPSolver::solve_LP\<close>: bounds of the variables, bounds of the
  linearized constraints, linear objective, Jacobian and initial point.\<close>

type_synonym LPSolver =
  "Interval list \<Rightarrow> Interval list \<Rightarrow> SparseVector \<Rightarrow> SparseVector list \<Rightarrow> double list
     \<Rightarrow> Direction_base"

text \<open>\<^verbatim>\<open>ActiveSetMethod::generate_variables_bounds_\<close>; the problem is not read. A new vector of
  ranges holds zeros.\<close>

definition generate_variables_bounds ::
  "ActiveSetMethod \<Rightarrow> Iterate_base \<Rightarrow> double \<Rightarrow> Interval list" where
  "generate_variables_bounds self current_iterate trust_region_radius' =
     fold (\<lambda>i bounds.
         let lb' = std_max (- trust_region_radius')
                     (lb (subproblem_bounds self ! i) - it_x current_iterate ! i);
             ub' = std_min trust_region_radius'
                     (ub (subproblem_bounds self ! i) - it_x current_iterate ! i)
         in bounds[i := \<lparr>lb = lb', ub = ub'\<rparr>])
       [0..<length (it_x current_iterate)]
       (replicate (length (it_x current_iterate)) \<lparr>lb = Fin 0, ub = Fin 0\<rparr>)"

text \<open>\<^verbatim>\<open>ActiveSetMethod::recover_l1qp_active_set_\<close>. \<^verbatim>\<open>map::at\<close> throws \<^verbatim>\<open>std::out_of_range\<close> for a
  missing key and the handler is empty: the lookup is \<open>map_of\<close>, and \<open>None\<close> adds
  nothing.\<close>

definition recover_l1qp_active_set ::
  "Problem \<Rightarrow> Direction_base \<Rightarrow> ElasticVariables \<Rightarrow> Direction_base" where
  "recover_l1qp_active_set problem direction' elastic_variables =
     (let direction' = fold (\<lambda>i direction'.
              let direction' = direction'\<lparr>dir_active_set := (dir_active_set direction')
                    \<lparr>active_set_bounds := (active_set_bounds (dir_active_set direction'))
                       \<lparr>at_lower_bound :=
                          at_lower_bound (active_set_bounds (dir_active_set direction')) - {i}\<rparr>\<rparr>\<rparr>
              in direction'\<lparr>dir_active_set := (dir_active_set direction')
                    \<lparr>active_set_bounds := (active_set_bounds (dir_active_set direction'))
                       \<lparr>at_upper_bound :=
                          at_upper_bound (active_set_bounds (dir_active_set direction')) - {i}\<rparr>\<rparr>\<rparr>)
            [problem_number_variables problem..<length (dir_x direction')] direction';
          direction' = fold (\<lambda>j direction'.
              let constraint_violation = Fin 0;
                  constraint_violation =
                    (case map_of (positive elastic_variables) j of
                       Some i \<Rightarrow> constraint_violation + dir_x direction' ! i
                     | None \<Rightarrow> constraint_violation);
                  constraint_violation =
                    (case map_of (negative elastic_variables) j of
                       Some i \<Rightarrow> constraint_violation + dir_x direction' ! i
                     | None \<Rightarrow> constraint_violation)
              in if Fin 0 < constraint_violation then
                   let direction' = direction'\<lparr>dir_active_set := (dir_active_set direction')
                         \<lparr>active_set_constraints :=
                            (active_set_constraints (dir_active_set direction'))
                            \<lparr>at_lower_bound := at_lower_bound
                               (active_set_constraints (dir_active_set direction')) - {j}\<rparr>\<rparr>\<rparr>
                   in direction'\<lparr>dir_active_set := (dir_active_set direction')
                         \<lparr>active_set_constraints :=
                            (active_set_constraints (dir_active_set direction'))
                            \<lparr>at_upper_bound := at_upper_bound
                               (active_set_constraints (dir_active_set direction')) - {j}\<rparr>\<rparr>\<rparr>
                 else direction')
            [0..<length (constraints (dir_multipliers direction'))] direction'
      in direction')"

text \<open>The value of the local \<^verbatim>\<open>constraint_violation\<close> that the second loop of
  \<open>recover_l1qp_active_set\<close> computes for the constraint \<open>j\<close>.\<close>

definition constraint_violation_of :: "Direction_base \<Rightarrow> ElasticVariables \<Rightarrow> nat \<Rightarrow> double" where
  "constraint_violation_of d ev j =
     (case map_of (negative ev) j of
        Some i \<Rightarrow> (case map_of (positive ev) j of
                     Some i \<Rightarrow> Fin 0 + dir_x d ! i | None \<Rightarrow> Fin 0) + dir_x d ! i
      | None \<Rightarrow> (case map_of (positive ev) j of
                     Some i \<Rightarrow> Fin 0 + dir_x d ! i | None \<Rightarrow> Fin 0))"

text \<open>\<^verbatim>\<open>ActiveSetMethod::compute_l1_linear_objective_\<close>; \<^verbatim>\<open>Iterate::set_objective_gradient\<close>
  stores the gradient.\<close>

definition compute_l1_linear_objective ::
  "Iterate_base \<Rightarrow> ConstraintPartition \<Rightarrow> Iterate_base" where
  "compute_l1_linear_objective current_iterate constraint_partition =
     (let objective_gradient = [];
          objective_gradient = fold (\<lambda>j objective_gradient.
              fold (\<lambda>(i, derivative) objective_gradient.
                  if constraint_feasibility constraint_partition ! j = INFEASIBLE_LOWER
                  then sparse_update (\<lambda>a. a - derivative) i objective_gradient
                  else sparse_update (\<lambda>a. a + derivative) i objective_gradient)
                (it_constraints_jacobian current_iterate ! j) objective_gradient)
            (infeasible constraint_partition) objective_gradient
      in current_iterate\<lparr>it_objective_gradient := objective_gradient\<rparr>)"

text \<open>\<^verbatim>\<open>ActiveSetMethod::generate_feasibility_bounds_\<close>; \<^verbatim>\<open>INFINITY\<close> is \<open>PInf\<close>.\<close>

definition generate_feasibility_bounds ::
  "Problem \<Rightarrow> double list \<Rightarrow> ConstraintPartition \<Rightarrow> Interval list" where
  "generate_feasibility_bounds problem current_constraints constraint_partition =
     fold (\<lambda>j constraints_bounds.
         let (lb', ub') =
               (if constraint_feasibility constraint_partition ! j = INFEASIBLE_LOWER then
                  (- PInf, lb (constraint_bounds problem ! j) - current_constraints ! j)
                else if constraint_feasibility constraint_partition ! j = INFEASIBLE_UPPER then
                  (ub (constraint_bounds problem ! j) - current_constraints ! j, PInf)
                else
                  (lb (constraint_bounds problem ! j) - current_constraints ! j,
                   ub (constraint_bounds problem ! j) - current_constraints ! j))
         in constraints_bounds[j := \<lparr>lb = lb', ub = ub'\<rparr>])
       [0..<problem_number_constraints problem]
       (replicate (problem_number_constraints problem) \<lparr>lb = Fin 0, ub = Fin 0\<rparr>)"

text \<open>\<^verbatim>\<open>ActiveSetMethod::compute_l1lp_step_\<close>. The function changes the iterate (its objective
  gradient) and the counter of the subproblem, and returns the direction of the solver
  with three members overwritten; the result holds all three.\<close>

definition compute_l1lp_step ::
  "ActiveSetMethod \<Rightarrow> Problem \<Rightarrow> LPSolver \<Rightarrow> Iterate_base \<Rightarrow> Direction_base \<Rightarrow> double
     \<Rightarrow> ActiveSetMethod \<times> Iterate_base \<times> Direction_base" where
  "compute_l1lp_step self problem solver current_iterate phase_2_direction trust_region_radius' =
     (let current_iterate = compute_l1_linear_objective current_iterate
            (dir_constraint_partition phase_2_direction);
          variables_bounds = generate_variables_bounds self current_iterate trust_region_radius';
          constraints_bounds = generate_feasibility_bounds problem
            (it_constraints current_iterate) (dir_constraint_partition phase_2_direction);
          d0 = dir_x phase_2_direction;
          direction' = solver variables_bounds constraints_bounds
            (it_objective_gradient current_iterate) (it_constraints_jacobian current_iterate) d0;
          direction' = direction'\<lparr>dir_objective_multiplier := Fin 0\<rparr>;
          direction' = direction'\<lparr>dir_phase := RESTORATION\<rparr>;
          direction' = direction'\<lparr>dir_constraint_partition :=
            dir_constraint_partition phase_2_direction\<rparr>;
          self = self\<lparr>number_subproblems_solved := number_subproblems_solved self + 1\<rparr>
      in (self, current_iterate, direction'))"

section \<open>The factories\<close>

datatype error = invalid_argument string

text \<open>\<^verbatim>\<open>Options::get_string\<close> is the options themselves, a function from a key to its
  string. The constructors of the three methods are outside the source files: an instance
  is the name of its class with the arguments of the constructor.\<close>

type_synonym Options = "string \<Rightarrow> string"

datatype InequalityHandlingMethod =
  QPSubproblem nat nat nat nat nat Options
| LPSubproblem nat nat nat nat Options
| PrimalDualInteriorPointMethod nat nat nat nat Options

text \<open>\<^verbatim>\<open>InequalityHandlingMethodFactory::create\<close>.\<close>

definition InequalityHandlingMethodFactory_create ::
  "nat \<Rightarrow> nat \<Rightarrow> nat \<Rightarrow> nat \<Rightarrow> nat \<Rightarrow> Options \<Rightarrow> error + InequalityHandlingMethod" where
  "InequalityHandlingMethodFactory_create number_variables' number_constraints'
       number_objective_gradient_nonzeros number_jacobian_nonzeros number_hessian_nonzeros options =
     (let subproblem_strategy = options ''subproblem''
      in if subproblem_strategy = ''QP'' then
           Inr (QPSubproblem number_variables' number_constraints'
                  number_objective_gradient_nonzeros number_jacobian_nonzeros
                  number_hessian_nonzeros options)
         else if subproblem_strategy = ''LP'' then
           Inr (LPSubproblem number_variables' number_constraints'
                  number_objective_gradient_nonzeros number_jacobian_nonzeros options)
         else if subproblem_strategy = ''primal_dual_interior_point'' then
           Inr (PrimalDualInteriorPointMethod number_variables' number_constraints'
                  number_jacobian_nonzeros number_hessian_nonzeros options)
         else Inl (invalid_argument
                (''Subproblem strategy '' @ subproblem_strategy @ '' is not supported'')))"

text \<open>
  \<^verbatim>\<open>SubproblemFactory::create\<close> of \<^verbatim>\<open>src/base\<close>. Its options are a \<^verbatim>\<open>std::map\<close> from strings to
  strings passed by value, and \<^verbatim>\<open>options[key]\<close> is the empty string for a missing key
  (\<open>options_at\<close>). \<^verbatim>\<open>std::stod\<close> throws when the string holds no number: it is the first
  argument, a function to an error or a double. An instance is the name of its class with
  the arguments of the constructor.
\<close>

definition options_at :: "(string \<rightharpoonup> string) \<Rightarrow> string \<Rightarrow> string" where
  "options_at options key = (case options key of None \<Rightarrow> [] | Some v \<Rightarrow> v)"

datatype Subproblem =
  SQP Problem string string bool bool
| SLP Problem string bool bool
| Sl1QP Problem string string bool bool double
| InteriorPoint Problem string string bool bool

definition SubproblemFactory_create ::
  "(string \<Rightarrow> error + double) \<Rightarrow> Problem \<Rightarrow> string \<Rightarrow> (string \<rightharpoonup> string) \<Rightarrow> bool \<Rightarrow> bool
     \<Rightarrow> error + Subproblem" where
  "SubproblemFactory_create stod problem type options use_trust_region scale_residuals =
     (if type = ''SQP'' then
        Inr (SQP problem (options_at options ''QP_solver'') (options_at options ''hessian'')
               use_trust_region scale_residuals)
      else if type = ''SLP'' then
        Inr (SLP problem (options_at options ''QP_solver'') use_trust_region scale_residuals)
      else if type = ''Sl1QP'' then
        (case stod (options_at options ''Sl1QP_initial_parameter'') of
           Inl e \<Rightarrow> Inl e
         | Inr initial_parameter \<Rightarrow>
             Inr (Sl1QP problem (options_at options ''QP_solver'') (options_at options ''hessian'')
                    use_trust_region scale_residuals initial_parameter))
      else if type = ''IPM'' then
        Inr (InteriorPoint problem (options_at options ''linear_solver'')
               (options_at options ''hessian'') use_trust_region scale_residuals)
      else Inl (invalid_argument (''Subproblem method '' @ type @ '' does not exist'')))"

section \<open>Example inputs\<close>

text \<open>A problem with one variable in \<open>[0, 1]\<close> and no constraint, an iterate at \<open>1/2\<close> with
  bound multipliers \<open>1\<close> and \<open>-1\<close>, and a subproblem with barrier parameter \<open>1/10\<close> whose
  augmented system has the solution \<open>-1\<close>.\<close>

definition example_parameters :: Parameters where
  "example_parameters =
     \<lparr>tau_min = Fin (99 / 100), k_sigma = Fin 10, regularization_exponent = Fin (1 / 4),
      small_direction_factor = Fin 10, push_variable_to_interior_k1 = Fin (1 / 100),
      push_variable_to_interior_k2 = Fin (1 / 100)\<rparr>"

definition example_problem :: NonlinearProblem where
  "example_problem =
     \<lparr>number_variables = Suc 0, number_constraints = 0, inequality_constraints = [],
      lower_bounded_variables = [0], upper_bounded_variables = [0],
      get_variable_lower_bound = (\<lambda>i. Fin 0), get_variable_upper_bound = (\<lambda>i. Fin 1),
      model_slacks = [], model_evaluate_constraints = (\<lambda>x. []),
      model_number_variables = Suc 0\<rparr>"

definition example_iterate :: Iterate where
  "example_iterate =
     \<lparr>primals = [Fin (1 / 2)],
      multipliers = \<lparr>constraints = [], lower_bounds = [Fin 1], upper_bounds = [Fin (- 1)]\<rparr>,
      evaluations = \<lparr>evaluations_constraints = []\<rparr>,
      is_objective_gradient_computed = False, are_constraints_computed = False,
      is_constraint_jacobian_computed = False\<rparr>"

definition example_direction :: Direction where
  "example_direction =
     \<lparr>direction_number_variables = 0, direction_number_constraints = 0,
      direction_primals = [Fin 0],
      direction_multipliers = \<lparr>constraints = [], lower_bounds = [Fin 0], upper_bounds = [Fin 0]\<rparr>,
      primal_dual_step_length = Fin 0, bound_dual_step_length = Fin 0,
      subproblem_objective = Fin 0\<rparr>"

definition example_subproblem :: PrimalDualInteriorPointSubproblem where
  "example_subproblem =
     \<lparr>barrier_parameter = Fin (1 / 10), previous_barrier_parameter = Fin (1 / 10),
      default_multiplier = Fin 1, parameters = example_parameters,
      solving_feasibility_problem = False, subproblem_definition_changed = False,
      subproblem_evaluations = \<lparr>evaluations_constraints = []\<rparr>,
      augmented_system_solution = [Fin (- 1)],
      lower_delta_z = [Fin 0], upper_delta_z = [Fin 0],
      direction = example_direction,
      least_square_multipliers = (\<lambda>problem iterate. constraints (multipliers iterate)),
      objective_gradient_dot = (\<lambda>v. Fin 0),
      hessian_quadratic_product = (\<lambda>v w. Fin 0)\<rparr>"

definition example_base_problem :: Problem where
  "example_base_problem =
     \<lparr>problem_number_variables = Suc 0, problem_number_constraints = Suc (Suc 0),
      constraint_bounds = [\<lparr>lb = Fin 1, ub = PInf\<rparr>, \<lparr>lb = MInf, ub = Fin 0\<rparr>],
      objective_sign = Fin 1\<rparr>"

text \<open>For the active-set method of \<^verbatim>\<open>src/base\<close>: one variable and two constraints (the problem
  above), the first below its lower bound and the second above its upper bound, and a
  direction over the variable and two elastic variables, the first elastic at \<open>2\<close>.\<close>

definition example_partition :: ConstraintPartition where
  "example_partition =
     \<lparr>feasible = [], infeasible = [0, Suc 0],
      constraint_feasibility = [INFEASIBLE_LOWER, INFEASIBLE_UPPER]\<rparr>"

definition example_base_iterate :: Iterate_base where
  "example_base_iterate =
     \<lparr>it_x = [Fin 1],
      it_multipliers = \<lparr>constraints = [Fin 0, Fin 0], lower_bounds = [Fin 0],
                        upper_bounds = [Fin 0]\<rparr>,
      it_constraints = [Fin 0, Fin 2],
      it_constraints_jacobian = [[(0, Fin 3)], [(0, Fin 5)]],
      it_objective_gradient = [(0, Fin 1)]\<rparr>"

definition example_base_direction :: Direction_base where
  "example_base_direction =
     \<lparr>dir_x = [Fin 0, Fin 2, Fin 0],
      dir_multipliers = \<lparr>constraints = [Fin 0, Fin 0], lower_bounds = [Fin 0, Fin 0, Fin 0],
                         upper_bounds = [Fin 0, Fin 0, Fin 0]\<rparr>,
      dir_active_set =
        \<lparr>active_set_constraints = \<lparr>at_lower_bound = {0, Suc 0}, at_upper_bound = {}\<rparr>,
         active_set_bounds = \<lparr>at_lower_bound = {0, Suc (Suc 0)}, at_upper_bound = {Suc 0}\<rparr>\<rparr>,
      dir_objective = Fin 0, dir_objective_multiplier = Fin 1, dir_phase = OPTIMALITY,
      dir_constraint_partition = example_partition\<rparr>"

definition example_elastic_variables :: ElasticVariables where
  "example_elastic_variables = \<lparr>positive = [(0, Suc 0)], negative = [(Suc 0, Suc (Suc 0))]\<rparr>"

definition example_active_set_method :: ActiveSetMethod where
  "example_active_set_method =
     \<lparr>subproblem_bounds = [\<lparr>lb = Fin (- 1), ub = PInf\<rparr>], number_subproblems_solved = 0\<rparr>"

section \<open>Facts about doubles\<close>

lemma double_minus_Fin [simp]: "Fin a - Fin b = Fin (a - b)"
  by (simp add: minus_double_def)

lemma double_le_Fin [simp]: "(Fin a \<le> Fin b) = (a \<le> b)"
  by (auto simp: less_eq_double_def)

lemma std_max_Fin [simp]: "std_max (Fin a) (Fin b) = Fin (max a b)"
  by (simp add: std_max_def max_def)

lemma std_min_Fin [simp]: "std_min (Fin a) (Fin b) = Fin (min a b)"
  by (simp add: std_min_def min_def)

lemma std_min_special [simp]: "std_min a NaN = a" "std_min a PInf = a"
  by (cases a; simp add: std_min_def)+

lemma std_max_special [simp]: "std_max a NaN = a" "std_max a MInf = a" "std_max (Fin r) PInf = PInf"
  by (cases a; simp add: std_max_def)+

lemma double_le_special [simp]:
  "MInf \<le> Fin a" "MInf \<le> MInf" "MInf \<le> PInf" "Fin a \<le> PInf" "PInf \<le> PInf"
  by (simp_all add: less_eq_double_def)



lemma overflow_Fin:
  "- overflow_threshold < a \<Longrightarrow> a < overflow_threshold \<Longrightarrow> overflow (Fin a) = Fin a"
  by simp

lemma overflow_special [simp]: "overflow PInf = PInf" "overflow MInf = MInf" "overflow NaN = NaN"
  by simp_all











section \<open>Pushing a variable into the interior of its bounds\<close>




section \<open>Facts about loops over index lists\<close>

lemma length_fold_update [simp]:
  "length (fold (\<lambda>i xs. xs[i := h i xs]) idxs xs) = length xs"
  by (induction idxs arbitrary: xs) simp_all

lemma nth_list_update_total:
  "xs[i := v] ! k = (if k = i \<and> k < length xs then v else xs ! k)"
proof (cases "k = i")
  case True
  then show ?thesis by (cases "i < length xs") (simp_all add: list_update_beyond)
next
  case False
  then show ?thesis by simp
qed

lemma fold_set_nth:
  "fold (\<lambda>i xs. xs[i := g i]) idxs xs ! k = (if k \<in> set idxs \<and> k < length xs then g k else xs ! k)"
proof (induction idxs arbitrary: xs)
  case Nil
  then show ?case by simp
next
  case (Cons i idxs)
  show ?case by (simp add: Cons.IH nth_list_update_total)
qed

lemma fold_update_nth:
  "distinct idxs \<Longrightarrow>
   fold (\<lambda>i xs. xs[i := h i (xs ! i)]) idxs xs ! k
     = (if k \<in> set idxs \<and> k < length xs then h k (xs ! k) else xs ! k)"
proof (induction idxs arbitrary: xs)
  case Nil
  then show ?case by simp
next
  case (Cons i idxs)
  then show ?case by (auto simp add: nth_list_update_total)
qed

section \<open>Relaxation of the bounds\<close>

lemma relax_variable_bounds_id: "relax_variable_bounds self problem current_iterate = self"
proof -
  have "fold (\<lambda>i s. if c i s then s else s) idxs s = s" for c :: "nat \<Rightarrow> PrimalDualInteriorPointSubproblem \<Rightarrow> bool" and idxs s
    by (induction idxs) simp_all
  then show ?thesis by (simp add: relax_variable_bounds_def Let_def)
qed

text \<open>
  C3. The claim wants a bound relaxed when the iterate is closer to it than
  \<open>machine_epsilon * barrier_parameter\<close>. In the example the variable sits on its lower bound
  \<open>0\<close>, so the test of \<open>relax_variable_bounds\<close> succeeds, and yet the function returns the
  subproblem as it was; the problem that holds the bounds is a constant argument. Nothing
  is relaxed.
\<close>

theorem relax_variable_bounds_changes_nothing:
  "primals (example_iterate\<lparr>primals := [Fin 0]\<rparr>) ! 0
       - get_variable_lower_bound example_problem 0
     < machine_epsilon * barrier_parameter example_subproblem
   \<and> relax_variable_bounds example_subproblem example_problem
        (example_iterate\<lparr>primals := [Fin 0]\<rparr>) = example_subproblem"
  by (simp add: relax_variable_bounds_id example_iterate_def example_problem_def
      example_subproblem_def machine_epsilon_def)

section \<open>Bounds of the direction\<close>

lemma set_direction_bounds_fold:
  "fold (\<lambda>variable_index self.
              let self = self\<lparr>direction_lower_bounds := (direction_lower_bounds self)
                    [variable_index := gl (trust_region_radius self) variable_index]\<rparr>
              in self\<lparr>direction_upper_bounds := (direction_upper_bounds self)
                    [variable_index := gu (trust_region_radius self) variable_index]\<rparr>) idxs S
   = S\<lparr>direction_lower_bounds := fold (\<lambda>i xs. xs[i := gl (trust_region_radius S) i]) idxs (direction_lower_bounds S),
       direction_upper_bounds := fold (\<lambda>i xs. xs[i := gu (trust_region_radius S) i]) idxs (direction_upper_bounds S)\<rparr>"
  by (induction idxs arbitrary: S) (simp_all add: Let_def)

lemma set_direction_bounds_eq:
  "set_direction_bounds S P it =
     S\<lparr>direction_lower_bounds :=
         fold (\<lambda>i xs. xs[i := variable_lower_bound P i - primals it ! i])
           [get_number_original_variables P..<optimization_number_variables P]
           (fold (\<lambda>i xs. xs[i := std_max (- trust_region_radius S) (variable_lower_bound P i - primals it ! i)])
              [0..<get_number_original_variables P] (direction_lower_bounds S)),
       direction_upper_bounds :=
         fold (\<lambda>i xs. xs[i := variable_upper_bound P i - primals it ! i])
           [get_number_original_variables P..<optimization_number_variables P]
           (fold (\<lambda>i xs. xs[i := std_min (trust_region_radius S) (variable_upper_bound P i - primals it ! i)])
              [0..<get_number_original_variables P] (direction_upper_bounds S))\<rparr>"
  unfolding set_direction_bounds_def Let_def
  apply (subst set_direction_bounds_fold[where gl = "\<lambda>r i. std_max (- r) (variable_lower_bound P i - primals it ! i)"
      and gu = "\<lambda>r i. std_min r (variable_upper_bound P i - primals it ! i)", unfolded Let_def])
  apply (subst set_direction_bounds_fold[where gl = "\<lambda>r i. variable_lower_bound P i - primals it ! i"
      and gu = "\<lambda>r i. variable_upper_bound P i - primals it ! i", unfolded Let_def])
  apply simp
  done

lemma generate_variables_bounds_nth:
  assumes "i < length (it_x it0)"
  shows "generate_variables_bounds A it0 r ! i =
     \<lparr>lb = std_max (- r) (lb (subproblem_bounds A ! i) - it_x it0 ! i),
      ub = std_min r (ub (subproblem_bounds A ! i) - it_x it0 ! i)\<rparr>"
  using assms unfolding generate_variables_bounds_def Let_def
  by (simp add: fold_set_nth)

text \<open>
  C8. \<open>set_direction_bounds\<close> gives every original variable \<open>i\<close> the bounds
  \<open>[max(-radius, x_L i - x i), min(radius, x_U i - x i)]\<close> and every additional (elastic)
  variable \<open>k\<close> the bounds \<open>[x_L k - x k, x_U k - x k]\<close> without the trust region, the lower
  one being \<open>0 - x k\<close> when the elastic has the lower bound \<open>0\<close>. The older
  \<open>generate_variables_bounds\<close> intersects the bounds of every variable \<open>j\<close> of its iterate with
  the trust region. The maximum and minimum are those of \<^verbatim>\<open>std::max\<close> and \<^verbatim>\<open>std::min\<close>.
\<close>

theorem direction_bounds:
  assumes "get_number_original_variables P \<le> optimization_number_variables P"
    and "optimization_number_variables P \<le> length (direction_lower_bounds S)"
    and "optimization_number_variables P \<le> length (direction_upper_bounds S)"
  shows "(i < get_number_original_variables P \<longrightarrow>
            direction_lower_bounds (set_direction_bounds S P it) ! i
              = std_max (- trust_region_radius S) (variable_lower_bound P i - primals it ! i)
          \<and> direction_upper_bounds (set_direction_bounds S P it) ! i
              = std_min (trust_region_radius S) (variable_upper_bound P i - primals it ! i))
       \<and> (get_number_original_variables P \<le> k \<and> k < optimization_number_variables P \<longrightarrow>
            direction_lower_bounds (set_direction_bounds S P it) ! k
              = variable_lower_bound P k - primals it ! k
          \<and> direction_upper_bounds (set_direction_bounds S P it) ! k
              = variable_upper_bound P k - primals it ! k
          \<and> (variable_lower_bound P k = Fin 0 \<longrightarrow>
                direction_lower_bounds (set_direction_bounds S P it) ! k = Fin 0 - primals it ! k))
       \<and> (j < length (it_x it0) \<longrightarrow>
            generate_variables_bounds A it0 r ! j =
              \<lparr>lb = std_max (- r) (lb (subproblem_bounds A ! j) - it_x it0 ! j),
               ub = std_min r (ub (subproblem_bounds A ! j) - it_x it0 ! j)\<rparr>)"
  using assms
  by (auto simp add: set_direction_bounds_eq fold_set_nth generate_variables_bounds_nth)

theorem direction_bounds_witness:
  "direction_lower_bounds (set_direction_bounds
       \<lparr>trust_region_radius = Fin 2, direction_lower_bounds = [Fin 0, Fin 0],
        direction_upper_bounds = [Fin 0, Fin 0]\<rparr>
       \<lparr>get_number_original_variables = Suc 0, optimization_number_variables = Suc (Suc 0),
        variable_lower_bound = (\<lambda>i. if i = 0 then Fin (- 1) else Fin 0),
        variable_upper_bound = (\<lambda>i. if i = 0 then Fin 5 else PInf)\<rparr>
       (example_iterate\<lparr>primals := [Fin 1, Fin 3]\<rparr>)) = [Fin (- 2), Fin (- 3)]
   \<and> direction_upper_bounds (set_direction_bounds
       \<lparr>trust_region_radius = Fin 2, direction_lower_bounds = [Fin 0, Fin 0],
        direction_upper_bounds = [Fin 0, Fin 0]\<rparr>
       \<lparr>get_number_original_variables = Suc 0, optimization_number_variables = Suc (Suc 0),
        variable_lower_bound = (\<lambda>i. if i = 0 then Fin (- 1) else Fin 0),
        variable_upper_bound = (\<lambda>i. if i = 0 then Fin 5 else PInf)\<rparr>
       (example_iterate\<lparr>primals := [Fin 1, Fin 3]\<rparr>)) = [Fin 2, PInf]
   \<and> generate_variables_bounds
       \<lparr>subproblem_bounds = [\<lparr>lb = Fin (- 1), ub = PInf\<rparr>], number_subproblems_solved = 0\<rparr>
       \<lparr>it_x = [Fin 1], it_multipliers = \<lparr>constraints = [], lower_bounds = [], upper_bounds = []\<rparr>,
        it_constraints = [], it_constraints_jacobian = [], it_objective_gradient = []\<rparr>
       (Fin 5) = [\<lparr>lb = Fin (- 2), ub = Fin 5\<rparr>]"
proof -
  define S where "S = \<lparr>trust_region_radius = Fin 2, direction_lower_bounds = [Fin 0, Fin 0],
        direction_upper_bounds = [Fin 0, Fin 0]\<rparr>"
  define P where "P = \<lparr>get_number_original_variables = Suc 0, optimization_number_variables = Suc (Suc 0),
        variable_lower_bound = (\<lambda>i. if i = 0 then Fin (- 1) else Fin 0),
        variable_upper_bound = (\<lambda>i. if i = 0 then Fin 5 else PInf)\<rparr>"
  define it where "it = example_iterate\<lparr>primals := [Fin 1, Fin 3]\<rparr>"
  define A where "A = \<lparr>subproblem_bounds = [\<lparr>lb = Fin (- 1), ub = PInf\<rparr>], number_subproblems_solved = 0\<rparr>"
  define it0 where "it0 = \<lparr>it_x = [Fin 1], it_multipliers = \<lparr>constraints = [], lower_bounds = [], upper_bounds = []\<rparr>,
        it_constraints = [], it_constraints_jacobian = [], it_objective_gradient = []\<rparr>"
  have len: "length (direction_lower_bounds (set_direction_bounds S P it)) = 2"
    "length (direction_upper_bounds (set_direction_bounds S P it)) = 2"
    "length (generate_variables_bounds A it0 (Fin 5)) = 1"
    by (simp_all add: set_direction_bounds_eq S_def generate_variables_bounds_def Let_def it0_def)
  have t: "direction_lower_bounds (set_direction_bounds S P it) ! 0 = Fin (- 2)
      \<and> direction_upper_bounds (set_direction_bounds S P it) ! 0 = Fin 2
      \<and> direction_lower_bounds (set_direction_bounds S P it) ! 1 = Fin (- 3)
      \<and> direction_upper_bounds (set_direction_bounds S P it) ! 1 = PInf
      \<and> generate_variables_bounds A it0 (Fin 5) ! 0 = \<lparr>lb = Fin (- 2), ub = Fin 5\<rparr>"
    using direction_bounds[of P S 0 it 1 0 it0 A "Fin 5"]
    by (simp add: S_def P_def it_def A_def it0_def example_iterate_def minus_double_def)
  have l2: "xs = [xs ! 0, xs ! 1]" if "length xs = 2" for xs :: "double list"
    using that by (cases xs; cases "tl xs") auto
  have l1: "xs = [xs ! 0]" if "length xs = 1" for xs :: "Interval list"
    using that by (cases xs) auto
  show ?thesis
    unfolding S_def[symmetric] P_def[symmetric] it_def[symmetric] A_def[symmetric] it0_def[symmetric]
    using l2[OF len(1)] l2[OF len(2)] l1[OF len(3)] t by simp
qed

section \<open>Strategies that the factories recognize\<close>

text \<open>
  C9 (as amended). \<open>InequalityHandlingMethodFactory_create\<close> returns an instance exactly for
  the strategies \<open>QP\<close>, \<open>LP\<close> and \<open>primal_dual_interior_point\<close>, and fails with
  \<open>invalid_argument\<close> for every other string. The older \<open>SubproblemFactory_create\<close> recognizes
  \<open>SQP\<close>, \<open>SLP\<close>, \<open>Sl1QP\<close> and \<open>IPM\<close> instead: it returns an instance for \<open>SQP\<close>, \<open>SLP\<close> and
  \<open>IPM\<close>, for \<open>Sl1QP\<close> when \<^verbatim>\<open>std::stod\<close> reads the initial parameter (its error otherwise),
  and fails with \<open>invalid_argument\<close> for every other string.
\<close>

theorem factories_recognized_strategies:
  "(options ''subproblem'' \<in> {''QP'', ''LP'', ''primal_dual_interior_point''} \<longrightarrow>
      (\<exists>m. InequalityHandlingMethodFactory_create nv nc ng nj nh options = Inr m))
   \<and> (options ''subproblem'' \<notin> {''QP'', ''LP'', ''primal_dual_interior_point''} \<longrightarrow>
      InequalityHandlingMethodFactory_create nv nc ng nj nh options
        = Inl (invalid_argument
            (''Subproblem strategy '' @ options ''subproblem'' @ '' is not supported'')))
   \<and> (type \<in> {''SQP'', ''SLP'', ''IPM''} \<longrightarrow>
      (\<exists>s. SubproblemFactory_create stod problem type opts tr sr = Inr s))
   \<and> (type = ''Sl1QP'' \<longrightarrow>
      (case stod (options_at opts ''Sl1QP_initial_parameter'') of
         Inl e \<Rightarrow> SubproblemFactory_create stod problem type opts tr sr = Inl e
       | Inr a \<Rightarrow> (\<exists>s. SubproblemFactory_create stod problem type opts tr sr = Inr s)))
   \<and> (type \<notin> {''SQP'', ''SLP'', ''Sl1QP'', ''IPM''} \<longrightarrow>
      SubproblemFactory_create stod problem type opts tr sr
        = Inl (invalid_argument (''Subproblem method '' @ type @ '' does not exist'')))"
proof (intro conjI impI)
  assume "options ''subproblem'' \<in> {''QP'', ''LP'', ''primal_dual_interior_point''}"
  then show "\<exists>m. InequalityHandlingMethodFactory_create nv nc ng nj nh options = Inr m"
    unfolding InequalityHandlingMethodFactory_create_def Let_def by auto
next
  assume "options ''subproblem'' \<notin> {''QP'', ''LP'', ''primal_dual_interior_point''}"
  then show "InequalityHandlingMethodFactory_create nv nc ng nj nh options
        = Inl (invalid_argument
            (''Subproblem strategy '' @ options ''subproblem'' @ '' is not supported''))"
    unfolding InequalityHandlingMethodFactory_create_def Let_def by simp
next
  assume "type \<in> {''SQP'', ''SLP'', ''IPM''}"
  then show "\<exists>s. SubproblemFactory_create stod problem type opts tr sr = Inr s"
    unfolding SubproblemFactory_create_def by auto
next
  assume "type = ''Sl1QP''"
  then show "case stod (options_at opts ''Sl1QP_initial_parameter'') of
         Inl e \<Rightarrow> SubproblemFactory_create stod problem type opts tr sr = Inl e
       | Inr a \<Rightarrow> (\<exists>s. SubproblemFactory_create stod problem type opts tr sr = Inr s)"
    unfolding SubproblemFactory_create_def by (simp split: sum.splits)
next
  assume "type \<notin> {''SQP'', ''SLP'', ''Sl1QP'', ''IPM''}"
  then show "SubproblemFactory_create stod problem type opts tr sr
        = Inl (invalid_argument (''Subproblem method '' @ type @ '' does not exist''))"
    unfolding SubproblemFactory_create_def by simp
qed

theorem factories_recognized_strategies_witness:
  "InequalityHandlingMethodFactory_create 2 1 2 2 3 (\<lambda>key. ''LP'')
      = Inr (LPSubproblem 2 1 2 2 (\<lambda>key. ''LP''))
   \<and> InequalityHandlingMethodFactory_create 2 1 2 2 3 (\<lambda>key. ''SQP'')
      = Inl (invalid_argument ''Subproblem strategy SQP is not supported'')
   \<and> SubproblemFactory_create (\<lambda>s. Inr (Fin 1)) example_base_problem ''SLP'' Map.empty True False
      = Inr (SLP example_base_problem [] True False)
   \<and> SubproblemFactory_create (\<lambda>s. Inr (Fin 1)) example_base_problem ''Sl1QP'' Map.empty True False
      = Inr (Sl1QP example_base_problem [] [] True False (Fin 1))
   \<and> SubproblemFactory_create (\<lambda>s. Inr (Fin 1)) example_base_problem ''LP'' Map.empty True False
      = Inl (invalid_argument ''Subproblem method LP does not exist'')"
proof -
  note a = factories_recognized_strategies[of "\<lambda>key. ''LP''" 2 1 2 2 3 "''SLP''"
      "\<lambda>s. Inr (Fin 1)" example_base_problem Map.empty True False]
  note b = factories_recognized_strategies[of "\<lambda>key. ''SQP''" 2 1 2 2 3 "''Sl1QP''"
      "\<lambda>s. Inr (Fin 1)" example_base_problem Map.empty True False]
  note c = factories_recognized_strategies[of "\<lambda>key. ''SQP''" 2 1 2 2 3 "''LP''"
      "\<lambda>s. Inr (Fin 1)" example_base_problem Map.empty True False]
  have 1: "InequalityHandlingMethodFactory_create 2 1 2 2 3 (\<lambda>key. ''LP'')
      = Inr (LPSubproblem 2 1 2 2 (\<lambda>key. ''LP''))"
    using a by (simp add: InequalityHandlingMethodFactory_create_def)
  have 2: "InequalityHandlingMethodFactory_create 2 1 2 2 3 (\<lambda>key. ''SQP'')
      = Inl (invalid_argument ''Subproblem strategy SQP is not supported'')"
    using b by simp
  have 3: "SubproblemFactory_create (\<lambda>s. Inr (Fin 1)) example_base_problem ''SLP'' Map.empty True False
      = Inr (SLP example_base_problem [] True False)"
    using a by (simp add: SubproblemFactory_create_def options_at_def)
  have 4: "SubproblemFactory_create (\<lambda>s. Inr (Fin 1)) example_base_problem ''Sl1QP'' Map.empty True False
      = Inr (Sl1QP example_base_problem [] [] True False (Fin 1))"
    using b by (simp add: SubproblemFactory_create_def options_at_def)
  have 5: "SubproblemFactory_create (\<lambda>s. Inr (Fin 1)) example_base_problem ''LP'' Map.empty True False
      = Inl (invalid_argument ''Subproblem method LP does not exist'')"
    using c by simp
  show ?thesis using 1 2 3 4 5 by blast
qed

text \<open>The older factory rejects \<open>QP\<close>, a strategy of the set of the claim, and accepts \<open>IPM\<close>,
  which is outside of it.\<close>

theorem subproblem_factory_rejects_QP_counterexample:
  "SubproblemFactory_create (\<lambda>s. Inr (Fin 1)) example_base_problem ''QP'' Map.empty True False
      = Inl (invalid_argument ''Subproblem method QP does not exist'')
   \<and> SubproblemFactory_create (\<lambda>s. Inr (Fin 1)) example_base_problem ''IPM'' Map.empty True False
      = Inr (InteriorPoint example_base_problem [] [] True False)"
  by (simp add: SubproblemFactory_create_def options_at_def)

section \<open>Active set of the l1-QP direction\<close>

lemma recover_bounds_fold:
  "fold (\<lambda>i direction'.
              let direction' = direction'\<lparr>dir_active_set := (dir_active_set direction')
                    \<lparr>active_set_bounds := (active_set_bounds (dir_active_set direction'))
                       \<lparr>at_lower_bound :=
                          at_lower_bound (active_set_bounds (dir_active_set direction')) - {i}\<rparr>\<rparr>\<rparr>
              in direction'\<lparr>dir_active_set := (dir_active_set direction')
                    \<lparr>active_set_bounds := (active_set_bounds (dir_active_set direction'))
                       \<lparr>at_upper_bound :=
                          at_upper_bound (active_set_bounds (dir_active_set direction')) - {i}\<rparr>\<rparr>\<rparr>)
     idxs d
   = d\<lparr>dir_active_set := (dir_active_set d)
        \<lparr>active_set_bounds := (active_set_bounds (dir_active_set d))
           \<lparr>at_lower_bound := at_lower_bound (active_set_bounds (dir_active_set d)) - set idxs,
            at_upper_bound := at_upper_bound (active_set_bounds (dir_active_set d)) - set idxs\<rparr>\<rparr>\<rparr>"
  (is "fold ?f idxs d = _")
proof (induction idxs arbitrary: d)
  case Nil
  show ?case by simp
next
  case (Cons i idxs)
  have s: "A - {i} - set idxs = A - insert i (set idxs)" for A :: "nat set" by blast
  have "fold ?f (i # idxs) d = fold ?f idxs (?f i d)" by simp
  also have "\<dots> = (?f i d)\<lparr>dir_active_set := (dir_active_set (?f i d))
        \<lparr>active_set_bounds := (active_set_bounds (dir_active_set (?f i d)))
           \<lparr>at_lower_bound := at_lower_bound (active_set_bounds (dir_active_set (?f i d))) - set idxs,
            at_upper_bound := at_upper_bound (active_set_bounds (dir_active_set (?f i d))) - set idxs\<rparr>\<rparr>\<rparr>"
    by (rule Cons.IH)
  also have "\<dots> = d\<lparr>dir_active_set := (dir_active_set d)
        \<lparr>active_set_bounds := (active_set_bounds (dir_active_set d))
           \<lparr>at_lower_bound := at_lower_bound (active_set_bounds (dir_active_set d)) - set (i # idxs),
            at_upper_bound := at_upper_bound (active_set_bounds (dir_active_set d)) - set (i # idxs)\<rparr>\<rparr>\<rparr>"
    by (simp add: Let_def s)
  finally show ?case .
qed

lemma recover_constraints_fold:
  "fold (\<lambda>j direction'.
              let constraint_violation = Fin 0;
                  constraint_violation =
                    (case map_of (positive elastic_variables) j of
                       Some i \<Rightarrow> constraint_violation + dir_x direction' ! i
                     | None \<Rightarrow> constraint_violation);
                  constraint_violation =
                    (case map_of (negative elastic_variables) j of
                       Some i \<Rightarrow> constraint_violation + dir_x direction' ! i
                     | None \<Rightarrow> constraint_violation)
              in if Fin 0 < constraint_violation then
                   let direction' = direction'\<lparr>dir_active_set := (dir_active_set direction')
                         \<lparr>active_set_constraints :=
                            (active_set_constraints (dir_active_set direction'))
                            \<lparr>at_lower_bound := at_lower_bound
                               (active_set_constraints (dir_active_set direction')) - {j}\<rparr>\<rparr>\<rparr>
                   in direction'\<lparr>dir_active_set := (dir_active_set direction')
                         \<lparr>active_set_constraints :=
                            (active_set_constraints (dir_active_set direction'))
                            \<lparr>at_upper_bound := at_upper_bound
                               (active_set_constraints (dir_active_set direction')) - {j}\<rparr>\<rparr>\<rparr>
                 else direction')
     idxs d
   = d\<lparr>dir_active_set := (dir_active_set d)
        \<lparr>active_set_constraints := (active_set_constraints (dir_active_set d))
           \<lparr>at_lower_bound := at_lower_bound (active_set_constraints (dir_active_set d))
              - {j \<in> set idxs. Fin 0 < constraint_violation_of d elastic_variables j},
            at_upper_bound := at_upper_bound (active_set_constraints (dir_active_set d))
              - {j \<in> set idxs. Fin 0 < constraint_violation_of d elastic_variables j}\<rparr>\<rparr>\<rparr>"
  (is "fold ?f idxs d = ?R idxs d")
proof (induction idxs arbitrary: d)
  case Nil
  show ?case by simp
next
  case (Cons j idxs)
  let ?v = "constraint_violation_of d elastic_variables j"
  have step: "?f j d = (if Fin 0 < ?v then
       d\<lparr>dir_active_set := (dir_active_set d)
        \<lparr>active_set_constraints := (active_set_constraints (dir_active_set d))
           \<lparr>at_lower_bound := at_lower_bound (active_set_constraints (dir_active_set d)) - {j},
            at_upper_bound := at_upper_bound (active_set_constraints (dir_active_set d)) - {j}\<rparr>\<rparr>\<rparr>
       else d)"
    by (simp add: Let_def constraint_violation_of_def split: option.splits)
  have x: "dir_x (?f j d) = dir_x d" by (subst step) simp
  have vv: "constraint_violation_of (?f j d) elastic_variables k
      = constraint_violation_of d elastic_variables k" for k
    unfolding constraint_violation_of_def x ..
  have s1: "A - {j} - {k \<in> set idxs. Q k} = A - {k \<in> set (j # idxs). Q k}"
    if "Q j" for A :: "nat set" and Q using that by auto
  have s2: "A - {k \<in> set idxs. Q k} = A - {k \<in> set (j # idxs). Q k}"
    if "\<not> Q j" for A :: "nat set" and Q using that by auto
  have "fold ?f (j # idxs) d = fold ?f idxs (?f j d)" by simp
  also have "\<dots> = ?R idxs (?f j d)" by (rule Cons.IH)
  also have "\<dots> = ?R (j # idxs) d"
  proof (cases "Fin 0 < ?v")
    case True
    show ?thesis unfolding vv unfolding step using True
      by (simp add: s1[where Q = "\<lambda>k. Fin 0 < constraint_violation_of d elastic_variables k", OF True])
  next
    case False
    show ?thesis unfolding vv unfolding step using False
      by (simp add: s2[where Q = "\<lambda>k. Fin 0 < constraint_violation_of d elastic_variables k", OF False])
  qed
  finally show ?case .
qed

lemma recover_l1qp_active_set_eq:
  "recover_l1qp_active_set problem d ev =
     d\<lparr>dir_active_set := (dir_active_set d)
         \<lparr>active_set_bounds := (active_set_bounds (dir_active_set d))
            \<lparr>at_lower_bound := at_lower_bound (active_set_bounds (dir_active_set d))
               - {i. problem_number_variables problem \<le> i \<and> i < length (dir_x d)},
             at_upper_bound := at_upper_bound (active_set_bounds (dir_active_set d))
               - {i. problem_number_variables problem \<le> i \<and> i < length (dir_x d)}\<rparr>,
          active_set_constraints := (active_set_constraints (dir_active_set d))
            \<lparr>at_lower_bound := at_lower_bound (active_set_constraints (dir_active_set d))
               - {j. j < length (constraints (dir_multipliers d))
                     \<and> Fin 0 < constraint_violation_of d ev j},
             at_upper_bound := at_upper_bound (active_set_constraints (dir_active_set d))
               - {j. j < length (constraints (dir_multipliers d))
                     \<and> Fin 0 < constraint_violation_of d ev j}\<rparr>\<rparr>\<rparr>"
proof -
  have v: "constraint_violation_of (d\<lparr>dir_active_set := a\<rparr>) ev j = constraint_violation_of d ev j"
    for a j by (simp add: constraint_violation_of_def split: option.splits)
  have s1: "{j \<in> set [0..<m]. Q j} = {j. j < m \<and> Q j}" for m :: nat and Q by auto
  have s2: "{n..<m} = {i. n \<le> i \<and> i < m}" for n m :: nat by auto
  show ?thesis
    unfolding recover_l1qp_active_set_def Let_def
    unfolding recover_bounds_fold[unfolded Let_def] recover_constraints_fold[unfolded Let_def]
    by (simp add: v s1 s2)
qed

lemma constraint_violation_of_sum:
  "constraint_violation_of d ev j =
     (case map_of (negative ev) j of Some i \<Rightarrow> dir_x d ! i | None \<Rightarrow> Fin 0)
   + (case map_of (positive ev) j of Some i \<Rightarrow> dir_x d ! i | None \<Rightarrow> Fin 0)"
proof -
  have z: "Fin 0 + a = a" "a + Fin 0 = a" for a :: double
    by (cases a; simp)+
  show ?thesis
    by (simp add: constraint_violation_of_def z add.commute split: option.splits)
qed

text \<open>
  C4. After \<open>recover_l1qp_active_set\<close>, an elastic variable \<open>i\<close> (an index from the number of
  original variables up to the size of the direction) is in neither set of active bounds,
  and a constraint \<open>j\<close> whose elastic values have a positive sum \<open>p j + n j\<close> is in neither
  set of active constraints. Every other index is in a set after the call exactly when it
  was before, and nothing but the active set changes. A constraint without an elastic
  variable of one kind counts 0 for it.
\<close>

theorem recover_l1qp_active_set_removes_elastics:
  fixes problem :: Problem and d :: Direction_base and ev :: ElasticVariables
  defines "p j \<equiv> (case map_of (negative ev) j of Some i \<Rightarrow> dir_x d ! i | None \<Rightarrow> Fin 0)"
    and "n j \<equiv> (case map_of (positive ev) j of Some i \<Rightarrow> dir_x d ! i | None \<Rightarrow> Fin 0)"
    and "d' \<equiv> recover_l1qp_active_set problem d ev"
  shows "(problem_number_variables problem \<le> i \<and> i < length (dir_x d) \<longrightarrow>
            i \<notin> at_lower_bound (active_set_bounds (dir_active_set d'))
          \<and> i \<notin> at_upper_bound (active_set_bounds (dir_active_set d')))
       \<and> (j < length (constraints (dir_multipliers d)) \<and> Fin 0 < p j + n j \<longrightarrow>
            j \<notin> at_lower_bound (active_set_constraints (dir_active_set d'))
          \<and> j \<notin> at_upper_bound (active_set_constraints (dir_active_set d')))
       \<and> (\<not> (problem_number_variables problem \<le> i \<and> i < length (dir_x d)) \<longrightarrow>
            (i \<in> at_lower_bound (active_set_bounds (dir_active_set d'))
               \<longleftrightarrow> i \<in> at_lower_bound (active_set_bounds (dir_active_set d)))
          \<and> (i \<in> at_upper_bound (active_set_bounds (dir_active_set d'))
               \<longleftrightarrow> i \<in> at_upper_bound (active_set_bounds (dir_active_set d))))
       \<and> (\<not> (j < length (constraints (dir_multipliers d)) \<and> Fin 0 < p j + n j) \<longrightarrow>
            (j \<in> at_lower_bound (active_set_constraints (dir_active_set d'))
               \<longleftrightarrow> j \<in> at_lower_bound (active_set_constraints (dir_active_set d)))
          \<and> (j \<in> at_upper_bound (active_set_constraints (dir_active_set d'))
               \<longleftrightarrow> j \<in> at_upper_bound (active_set_constraints (dir_active_set d))))
       \<and> d'\<lparr>dir_active_set := dir_active_set d\<rparr> = d"
  unfolding d'_def p_def n_def recover_l1qp_active_set_eq constraint_violation_of_sum
  by simp

theorem recover_l1qp_active_set_removes_elastics_witness:
  "Suc (Suc 0) \<notin> at_lower_bound (active_set_bounds (dir_active_set
      (recover_l1qp_active_set example_base_problem example_base_direction example_elastic_variables)))
   \<and> Suc 0 \<notin> at_upper_bound (active_set_bounds (dir_active_set
      (recover_l1qp_active_set example_base_problem example_base_direction example_elastic_variables)))
   \<and> 0 \<notin> at_lower_bound (active_set_constraints (dir_active_set
      (recover_l1qp_active_set example_base_problem example_base_direction example_elastic_variables)))
   \<and> 0 \<in> at_lower_bound (active_set_bounds (dir_active_set
      (recover_l1qp_active_set example_base_problem example_base_direction example_elastic_variables)))
   \<and> Suc 0 \<in> at_lower_bound (active_set_constraints (dir_active_set
      (recover_l1qp_active_set example_base_problem example_base_direction example_elastic_variables)))"
proof -
  note t = recover_l1qp_active_set_removes_elastics[where problem = example_base_problem
      and d = example_base_direction and ev = example_elastic_variables]
  have a: "Suc (Suc 0) \<notin> at_lower_bound (active_set_bounds (dir_active_set
      (recover_l1qp_active_set example_base_problem example_base_direction example_elastic_variables)))"
    using t[where i = "Suc (Suc 0)" and j = 0]
    by (simp add: example_base_problem_def example_base_direction_def)
  have b: "Suc 0 \<notin> at_upper_bound (active_set_bounds (dir_active_set
      (recover_l1qp_active_set example_base_problem example_base_direction example_elastic_variables)))"
    using t[where i = "Suc 0" and j = 0]
    by (simp add: example_base_problem_def example_base_direction_def)
  have c: "0 \<notin> at_lower_bound (active_set_constraints (dir_active_set
      (recover_l1qp_active_set example_base_problem example_base_direction example_elastic_variables)))"
    using t[where i = "Suc 0" and j = 0]
    by (simp add: example_base_problem_def example_base_direction_def example_elastic_variables_def)
  have d: "0 \<in> at_lower_bound (active_set_bounds (dir_active_set
      (recover_l1qp_active_set example_base_problem example_base_direction example_elastic_variables)))"
    using t[where i = 0 and j = "Suc 0"]
    by (simp add: example_base_problem_def example_base_direction_def)
  have e: "Suc 0 \<in> at_lower_bound (active_set_constraints (dir_active_set
      (recover_l1qp_active_set example_base_problem example_base_direction example_elastic_variables)))"
    using t[where i = 0 and j = "Suc 0"]
    by (simp add: example_base_problem_def example_base_direction_def example_elastic_variables_def)
  show ?thesis using a b c d e by blast
qed

section \<open>The restoration subproblem of the active-set method\<close>

lemma double_add_zero [simp]: "Fin 0 + a = a" "a + Fin 0 = a" for a :: double
  by (cases a; simp)+

lemma sparse_at_update:
  "sparse_at (sparse_update f i v) k = (if k = i then f (sparse_at v i) else sparse_at v k)"
  by (induction v) (auto simp: sparse_at_def)

lemma sparse_at_Cons:
  "sparse_at ((i, a) # v) k = (if k = i then a else sparse_at v k)"
  by (simp add: sparse_at_def)

lemma sparse_at_absent: "k \<notin> fst ` set v \<Longrightarrow> sparse_at v k = Fin 0"
  by (simp add: sparse_at_def map_of_eq_None_iff[THEN iffD2])

lemma row_fold_minus:
  "distinct (map fst row) \<Longrightarrow>
   sparse_at (fold (\<lambda>(i, derivative) g. sparse_update (\<lambda>a. a - derivative) i g) row g) k
     = sparse_at g k + (- sparse_at row k)"
  (is "_ \<Longrightarrow> sparse_at (fold ?f row g) k = _")
proof (induction row arbitrary: g)
  case Nil
  show ?case by (simp add: sparse_at_def)
next
  case (Cons e row)
  obtain i d where e: "e = (i, d)" by (cases e)
  have ni: "i \<notin> fst ` set row" and dr: "distinct (map fst row)" using Cons.prems e by auto
  have "sparse_at (fold ?f (e # row) g) k = sparse_at (fold ?f row (?f e g)) k" by simp
  also have "\<dots> = sparse_at (?f e g) k + (- sparse_at row k)" by (rule Cons.IH[OF dr])
  also have "\<dots> = sparse_at g k + (- sparse_at (e # row) k)"
    using sparse_at_absent[OF ni]
    by (simp add: e sparse_at_update sparse_at_Cons minus_double_def)
  finally show ?case .
qed

lemma row_fold_plus:
  "distinct (map fst row) \<Longrightarrow>
   sparse_at (fold (\<lambda>(i, derivative) g. sparse_update (\<lambda>a. a + derivative) i g) row g) k
     = sparse_at g k + sparse_at row k"
proof (induction row arbitrary: g)
  case Nil
  show ?case by (simp add: sparse_at_def)
next
  case (Cons e row)
  obtain i d where e: "e = (i, d)" by (cases e)
  have ni: "i \<notin> fst ` set row" and dr: "distinct (map fst row)" using Cons.prems e by auto
  show ?case
    using sparse_at_absent[OF ni]
    by (simp add: e Cons.IH[OF dr] sparse_at_update sparse_at_Cons)
qed

lemma l1_objective_fold:
  assumes "\<forall>j\<in>set js. distinct (map fst (jac ! j))"
  shows "sparse_at (fold (\<lambda>j objective_gradient.
              fold (\<lambda>(i, derivative) objective_gradient.
                  if cf ! j = INFEASIBLE_LOWER
                  then sparse_update (\<lambda>a. a - derivative) i objective_gradient
                  else sparse_update (\<lambda>a. a + derivative) i objective_gradient)
                (jac ! j) objective_gradient) js g) k
     = sparse_at g k + (\<Sum>j\<leftarrow>js. if cf ! j = INFEASIBLE_LOWER then - sparse_at (jac ! j) k
                                 else sparse_at (jac ! j) k)"
  (is "sparse_at (fold ?f js g) k = _")
  using assms
proof (induction js arbitrary: g)
  case Nil
  show ?case by simp
next
  case (Cons j js)
  have dj: "distinct (map fst (jac ! j))" and djs: "\<forall>j\<in>set js. distinct (map fst (jac ! j))"
    using Cons.prems by auto
  have step: "sparse_at (?f j g) k
      = sparse_at g k + (if cf ! j = INFEASIBLE_LOWER then - sparse_at (jac ! j) k
                         else sparse_at (jac ! j) k)"
  proof (cases "cf ! j = INFEASIBLE_LOWER")
    case True
    have "?f j g = fold (\<lambda>(i, derivative) g. sparse_update (\<lambda>a. a - derivative) i g) (jac ! j) g"
      using True by simp
    then show ?thesis using True row_fold_minus[OF dj] by simp
  next
    case False
    have "?f j g = fold (\<lambda>(i, derivative) g. sparse_update (\<lambda>a. a + derivative) i g) (jac ! j) g"
      using False by simp
    then show ?thesis using False row_fold_plus[OF dj] by simp
  qed
  have "sparse_at (fold ?f (j # js) g) k = sparse_at (fold ?f js (?f j g)) k" by simp
  also have "\<dots> = sparse_at (?f j g) k + (\<Sum>j\<leftarrow>js. if cf ! j = INFEASIBLE_LOWER then - sparse_at (jac ! j) k
                                 else sparse_at (jac ! j) k)"
    by (rule Cons.IH[OF djs])
  finally show ?case unfolding step by (simp add: add.assoc)
qed

lemma generate_feasibility_bounds_nth:
  assumes "j < problem_number_constraints P"
  shows "generate_feasibility_bounds P c cp ! j =
     (case constraint_feasibility cp ! j of
        INFEASIBLE_LOWER \<Rightarrow> \<lparr>lb = MInf, ub = lb (constraint_bounds P ! j) - c ! j\<rparr>
      | INFEASIBLE_UPPER \<Rightarrow> \<lparr>lb = ub (constraint_bounds P ! j) - c ! j, ub = PInf\<rparr>
      | FEASIBLE \<Rightarrow> \<lparr>lb = lb (constraint_bounds P ! j) - c ! j,
                     ub = ub (constraint_bounds P ! j) - c ! j\<rparr>)"
proof -
  define g where "g j = (case constraint_feasibility cp ! j of
        INFEASIBLE_LOWER \<Rightarrow> \<lparr>lb = MInf, ub = lb (constraint_bounds P ! j) - c ! j\<rparr>
      | INFEASIBLE_UPPER \<Rightarrow> \<lparr>lb = ub (constraint_bounds P ! j) - c ! j, ub = PInf\<rparr>
      | FEASIBLE \<Rightarrow> \<lparr>lb = lb (constraint_bounds P ! j) - c ! j,
                     ub = ub (constraint_bounds P ! j) - c ! j\<rparr>)" for j
  have "generate_feasibility_bounds P c cp =
      fold (\<lambda>j xs. xs[j := g j]) [0..<problem_number_constraints P]
        (replicate (problem_number_constraints P) \<lparr>lb = Fin 0, ub = Fin 0\<rparr>)"
    unfolding generate_feasibility_bounds_def g_def
    by (rule arg_cong[where f = "\<lambda>f. fold f _ _"])
       (auto simp: fun_eq_iff split: ConstraintFeasibility.splits)
  then show ?thesis using assms by (simp add: fold_set_nth g_def)
qed

text \<open>
  C7. For a constraint partition whose list of infeasible constraints holds no constraint
  marked feasible (the rows of the Jacobian having distinct indices),
  \<open>compute_l1lp_step\<close> hands to the solver: an objective gradient whose component \<open>k\<close> is the
  sum over the infeasible constraints of minus the component of the gradient of the
  constraint when it is marked \<open>INFEASIBLE_LOWER\<close> and plus that component when it is marked
  \<open>INFEASIBLE_UPPER\<close>; and bounds of the linearized constraints that are \<open>(-\<infinity>, c_L - c]\<close>
  for \<open>INFEASIBLE_LOWER\<close>, \<open>[c_U - c, +\<infinity>)\<close> for \<open>INFEASIBLE_UPPER\<close> and two-sided for
  \<open>FEASIBLE\<close>. The direction it returns has the objective multiplier 0.
\<close>

theorem restoration_subproblem:
  fixes phase_2_direction :: Direction_base and it :: Iterate_base
  defines "cp \<equiv> dir_constraint_partition phase_2_direction"
  assumes "\<forall>j\<in>set (infeasible cp). distinct (map fst (it_constraints_jacobian it ! j))
             \<and> constraint_feasibility cp ! j \<noteq> FEASIBLE"
  shows "case compute_l1lp_step A P solver it phase_2_direction r of (A', it', d') \<Rightarrow>
      sparse_at (it_objective_gradient it') k
        = (\<Sum>j\<leftarrow>infeasible cp. case constraint_feasibility cp ! j of
              INFEASIBLE_LOWER \<Rightarrow> - sparse_at (it_constraints_jacobian it ! j) k
            | INFEASIBLE_UPPER \<Rightarrow> sparse_at (it_constraints_jacobian it ! j) k
            | FEASIBLE \<Rightarrow> Fin 0)
    \<and> dir_objective_multiplier d' = Fin 0
    \<and> d' = (solver (generate_variables_bounds A it' r)
              (generate_feasibility_bounds P (it_constraints it) cp)
              (it_objective_gradient it') (it_constraints_jacobian it) (dir_x phase_2_direction))
            \<lparr>dir_objective_multiplier := Fin 0, dir_phase := RESTORATION,
             dir_constraint_partition := cp\<rparr>
    \<and> (j < problem_number_constraints P \<longrightarrow>
         generate_feasibility_bounds P (it_constraints it) cp ! j =
           (case constraint_feasibility cp ! j of
              INFEASIBLE_LOWER \<Rightarrow>
                \<lparr>lb = MInf, ub = lb (constraint_bounds P ! j) - it_constraints it ! j\<rparr>
            | INFEASIBLE_UPPER \<Rightarrow>
                \<lparr>lb = ub (constraint_bounds P ! j) - it_constraints it ! j, ub = PInf\<rparr>
            | FEASIBLE \<Rightarrow>
                \<lparr>lb = lb (constraint_bounds P ! j) - it_constraints it ! j,
                 ub = ub (constraint_bounds P ! j) - it_constraints it ! j\<rparr>))"
proof -
  have d: "\<forall>j\<in>set (infeasible cp). distinct (map fst (it_constraints_jacobian it ! j))"
    using assms(2) by blast
  have sum_eq: "(\<Sum>j\<leftarrow>infeasible cp. if constraint_feasibility cp ! j = INFEASIBLE_LOWER
            then - sparse_at (it_constraints_jacobian it ! j) k
            else sparse_at (it_constraints_jacobian it ! j) k)
      = (\<Sum>j\<leftarrow>infeasible cp. case constraint_feasibility cp ! j of
              INFEASIBLE_LOWER \<Rightarrow> - sparse_at (it_constraints_jacobian it ! j) k
            | INFEASIBLE_UPPER \<Rightarrow> sparse_at (it_constraints_jacobian it ! j) k
            | FEASIBLE \<Rightarrow> Fin 0)"
    by (rule arg_cong[where f = sum_list], rule map_cong[OF refl])
       (use assms(2) in \<open>auto split: ConstraintFeasibility.splits\<close>)
  have g: "sparse_at (it_objective_gradient (compute_l1_linear_objective it cp)) k
      = (\<Sum>j\<leftarrow>infeasible cp. case constraint_feasibility cp ! j of
              INFEASIBLE_LOWER \<Rightarrow> - sparse_at (it_constraints_jacobian it ! j) k
            | INFEASIBLE_UPPER \<Rightarrow> sparse_at (it_constraints_jacobian it ! j) k
            | FEASIBLE \<Rightarrow> Fin 0)"
    unfolding compute_l1_linear_objective_def Let_def
    using l1_objective_fold[OF d, of "constraint_feasibility cp" "[]" k]
    by (simp add: sum_eq sparse_at_def)
  have same: "it_constraints (compute_l1_linear_objective it cp) = it_constraints it"
    "it_constraints_jacobian (compute_l1_linear_objective it cp) = it_constraints_jacobian it"
    by (simp_all add: compute_l1_linear_objective_def Let_def)
  show ?thesis
    unfolding compute_l1lp_step_def Let_def cp_def[symmetric]
    using g generate_feasibility_bounds_nth[of j P "it_constraints it" cp]
    by (simp add: same)
qed

theorem restoration_subproblem_witness:
  "sparse_at (it_objective_gradient (fst (snd (compute_l1lp_step example_active_set_method
       example_base_problem (\<lambda>vb cb g jac d0. example_base_direction) example_base_iterate
       example_base_direction (Fin 5))))) 0 = Fin 2
   \<and> dir_objective_multiplier (snd (snd (compute_l1lp_step example_active_set_method
       example_base_problem (\<lambda>vb cb g jac d0. example_base_direction) example_base_iterate
       example_base_direction (Fin 5)))) = Fin 0
   \<and> generate_feasibility_bounds example_base_problem (it_constraints example_base_iterate)
        example_partition ! 0 = \<lparr>lb = MInf, ub = Fin 1\<rparr>
   \<and> generate_feasibility_bounds example_base_problem (it_constraints example_base_iterate)
        example_partition ! Suc 0 = \<lparr>lb = Fin (- 2), ub = PInf\<rparr>"
proof -
  have pre: "\<forall>j\<in>set (infeasible (dir_constraint_partition example_base_direction)).
      distinct (map fst (it_constraints_jacobian example_base_iterate ! j))
      \<and> constraint_feasibility (dir_constraint_partition example_base_direction) ! j \<noteq> FEASIBLE"
    by (simp add: example_base_direction_def example_partition_def example_base_iterate_def)
  note t = restoration_subproblem[OF pre, where A = example_active_set_method
      and P = example_base_problem and solver = "\<lambda>vb cb g jac d0. example_base_direction"
      and r = "Fin 5"]
  have cp: "dir_constraint_partition example_base_direction = example_partition"
    by (simp add: example_base_direction_def)
  have a: "sparse_at (it_objective_gradient (fst (snd (compute_l1lp_step example_active_set_method
       example_base_problem (\<lambda>vb cb g jac d0. example_base_direction) example_base_iterate
       example_base_direction (Fin 5))))) 0 = Fin 2
     \<and> dir_objective_multiplier (snd (snd (compute_l1lp_step example_active_set_method
       example_base_problem (\<lambda>vb cb g jac d0. example_base_direction) example_base_iterate
       example_base_direction (Fin 5)))) = Fin 0
     \<and> generate_feasibility_bounds example_base_problem (it_constraints example_base_iterate)
        example_partition ! 0 = \<lparr>lb = MInf, ub = Fin 1\<rparr>"
    using t[where k = 0 and j = 0]
    by (simp add: cp split_beta example_partition_def example_base_iterate_def
        example_base_problem_def sparse_at_def minus_double_def)
  have b: "generate_feasibility_bounds example_base_problem (it_constraints example_base_iterate)
        example_partition ! Suc 0 = \<lparr>lb = Fin (- 2), ub = PInf\<rparr>"
    using t[where k = 0 and j = "Suc 0"]
    by (simp add: cp split_beta example_partition_def example_base_iterate_def
        example_base_problem_def sparse_at_def minus_double_def)
  show ?thesis using a b by blast
qed

section \<open>Reset of the bound multipliers\<close>

lemma postprocess_lower_fold:
  assumes "primals it = xs0"
  shows "fold (\<lambda>i iterate.
              let coefficient = mu / (primals iterate ! i - lbf i);
                  lb' = coefficient / ks;
                  ub' = coefficient * ks
              in if lb' \<le> ub' then
                   iterate\<lparr>multipliers := (multipliers iterate)
                     \<lparr>lower_bounds := (lower_bounds (multipliers iterate))
                        [i := std_max (std_min (lower_bounds (multipliers iterate) ! i) ub') lb']\<rparr>\<rparr>
                 else iterate) idxs it
   = it\<lparr>multipliers := (multipliers it)
        \<lparr>lower_bounds := fold (\<lambda>i zs. zs[i :=
             (if mu / (xs0 ! i - lbf i) / ks \<le> mu / (xs0 ! i - lbf i) * ks
              then std_max (std_min (zs ! i) (mu / (xs0 ! i - lbf i) * ks))
                     (mu / (xs0 ! i - lbf i) / ks)
              else zs ! i)]) idxs (lower_bounds (multipliers it))\<rparr>\<rparr>"
  (is "fold ?f idxs it = ?R idxs it")
  using assms
proof (induction idxs arbitrary: it)
  case Nil
  show ?case by simp
next
  case (Cons i idxs)
  have p: "primals (?f i it) = xs0" using Cons.prems by (simp add: Let_def)
  have "fold ?f (i # idxs) it = fold ?f idxs (?f i it)" by simp
  also have "\<dots> = ?R idxs (?f i it)" by (rule Cons.IH[OF p])
  also have "\<dots> = ?R (i # idxs) it" using Cons.prems by (simp add: Let_def)
  finally show ?case .
qed

lemma postprocess_upper_fold:
  assumes "primals it = xs0"
  shows "fold (\<lambda>i iterate.
              let coefficient = mu / (primals iterate ! i - ubf i);
                  lb' = coefficient * ks;
                  ub' = coefficient / ks
              in if lb' \<le> ub' then
                   iterate\<lparr>multipliers := (multipliers iterate)
                     \<lparr>upper_bounds := (upper_bounds (multipliers iterate))
                        [i := std_max (std_min (upper_bounds (multipliers iterate) ! i) ub') lb']\<rparr>\<rparr>
                 else iterate) idxs it
   = it\<lparr>multipliers := (multipliers it)
        \<lparr>upper_bounds := fold (\<lambda>i zs. zs[i :=
             (if mu / (xs0 ! i - ubf i) * ks \<le> mu / (xs0 ! i - ubf i) / ks
              then std_max (std_min (zs ! i) (mu / (xs0 ! i - ubf i) / ks))
                     (mu / (xs0 ! i - ubf i) * ks)
              else zs ! i)]) idxs (upper_bounds (multipliers it))\<rparr>\<rparr>"
  (is "fold ?f idxs it = ?R idxs it")
  using assms
proof (induction idxs arbitrary: it)
  case Nil
  show ?case by simp
next
  case (Cons i idxs)
  have p: "primals (?f i it) = xs0" using Cons.prems by (simp add: Let_def)
  have "fold ?f (i # idxs) it = fold ?f idxs (?f i it)" by simp
  also have "\<dots> = ?R idxs (?f i it)" by (rule Cons.IH[OF p])
  also have "\<dots> = ?R (i # idxs) it" using Cons.prems by (simp add: Let_def)
  finally show ?case .
qed

lemma postprocess_iterate_eq:
  "postprocess_iterate S P it =
     it\<lparr>multipliers := (multipliers it)
        \<lparr>lower_bounds := fold (\<lambda>i zs. zs[i :=
             (if barrier_parameter S / (primals it ! i - get_variable_lower_bound P i) / k_sigma (parameters S)
                   \<le> barrier_parameter S / (primals it ! i - get_variable_lower_bound P i) * k_sigma (parameters S)
              then std_max (std_min (zs ! i)
                      (barrier_parameter S / (primals it ! i - get_variable_lower_bound P i) * k_sigma (parameters S)))
                     (barrier_parameter S / (primals it ! i - get_variable_lower_bound P i) / k_sigma (parameters S))
              else zs ! i)]) (lower_bounded_variables P) (lower_bounds (multipliers it)),
         upper_bounds := fold (\<lambda>i zs. zs[i :=
             (if barrier_parameter S / (primals it ! i - get_variable_upper_bound P i) * k_sigma (parameters S)
                   \<le> barrier_parameter S / (primals it ! i - get_variable_upper_bound P i) / k_sigma (parameters S)
              then std_max (std_min (zs ! i)
                      (barrier_parameter S / (primals it ! i - get_variable_upper_bound P i) / k_sigma (parameters S)))
                     (barrier_parameter S / (primals it ! i - get_variable_upper_bound P i) * k_sigma (parameters S))
              else zs ! i)]) (upper_bounded_variables P) (upper_bounds (multipliers it))\<rparr>\<rparr>"
  unfolding postprocess_iterate_def Let_def
  apply (subst postprocess_lower_fold[where ?xs0.0 = "primals it", unfolded Let_def, OF refl])
  apply (subst postprocess_upper_fold[where ?xs0.0 = "primals it", unfolded Let_def])
   apply simp
  apply simp
  done

lemma postprocess_iterate_lower_nth:
  assumes "distinct (lower_bounded_variables P)"
  shows "lower_bounds (multipliers (postprocess_iterate S P it)) ! i
      = (if i \<in> set (lower_bounded_variables P) \<and> i < length (lower_bounds (multipliers it))
            \<and> barrier_parameter S / (primals it ! i - get_variable_lower_bound P i) / k_sigma (parameters S)
                 \<le> barrier_parameter S / (primals it ! i - get_variable_lower_bound P i) * k_sigma (parameters S)
         then std_max (std_min (lower_bounds (multipliers it) ! i)
                 (barrier_parameter S / (primals it ! i - get_variable_lower_bound P i) * k_sigma (parameters S)))
                (barrier_parameter S / (primals it ! i - get_variable_lower_bound P i) / k_sigma (parameters S))
         else lower_bounds (multipliers it) ! i)"
proof -
  define h where "h = (\<lambda>i z.
      if barrier_parameter S / (primals it ! i - get_variable_lower_bound P i) / k_sigma (parameters S)
           \<le> barrier_parameter S / (primals it ! i - get_variable_lower_bound P i) * k_sigma (parameters S)
      then std_max (std_min z
              (barrier_parameter S / (primals it ! i - get_variable_lower_bound P i) * k_sigma (parameters S)))
             (barrier_parameter S / (primals it ! i - get_variable_lower_bound P i) / k_sigma (parameters S))
      else z)"
  have eq: "lower_bounds (multipliers (postprocess_iterate S P it))
      = fold (\<lambda>i zs. zs[i := h i (zs ! i)]) (lower_bounded_variables P) (lower_bounds (multipliers it))"
    by (simp add: postprocess_iterate_eq h_def)
  show ?thesis
    unfolding eq fold_update_nth[OF assms, of h] by (simp add: h_def)
qed

lemma postprocess_iterate_upper_nth:
  assumes "distinct (upper_bounded_variables P)"
  shows "upper_bounds (multipliers (postprocess_iterate S P it)) ! i
      = (if i \<in> set (upper_bounded_variables P) \<and> i < length (upper_bounds (multipliers it))
            \<and> barrier_parameter S / (primals it ! i - get_variable_upper_bound P i) * k_sigma (parameters S)
                 \<le> barrier_parameter S / (primals it ! i - get_variable_upper_bound P i) / k_sigma (parameters S)
         then std_max (std_min (upper_bounds (multipliers it) ! i)
                 (barrier_parameter S / (primals it ! i - get_variable_upper_bound P i) / k_sigma (parameters S)))
                (barrier_parameter S / (primals it ! i - get_variable_upper_bound P i) * k_sigma (parameters S))
         else upper_bounds (multipliers it) ! i)"
proof -
  define h where "h = (\<lambda>i z.
      if barrier_parameter S / (primals it ! i - get_variable_upper_bound P i) * k_sigma (parameters S)
           \<le> barrier_parameter S / (primals it ! i - get_variable_upper_bound P i) / k_sigma (parameters S)
      then std_max (std_min z
              (barrier_parameter S / (primals it ! i - get_variable_upper_bound P i) / k_sigma (parameters S)))
             (barrier_parameter S / (primals it ! i - get_variable_upper_bound P i) * k_sigma (parameters S))
      else z)"
  have eq: "upper_bounds (multipliers (postprocess_iterate S P it))
      = fold (\<lambda>i zs. zs[i := h i (zs ! i)]) (upper_bounded_variables P) (upper_bounds (multipliers it))"
    by (simp add: postprocess_iterate_eq h_def)
  show ?thesis
    unfolding eq fold_update_nth[OF assms, of h] by (simp add: h_def)
qed

lemma clamp_lower_real:
  fixes m k d z :: real
  assumes "0 < m" "1 \<le> k" "0 < d"
  shows "m / d / k \<le> m / d * k"
    and "m / d / k \<le> max (min z (m / d * k)) (m / d / k)"
    and "max (min z (m / d * k)) (m / d / k) \<le> m / d * k"
    and "m / d / k \<le> z \<Longrightarrow> z \<le> m / d * k \<Longrightarrow> max (min z (m / d * k)) (m / d / k) = z"
    and "m / d * k < z \<Longrightarrow> max (min z (m / d * k)) (m / d / k) = m / d * k"
    and "z < m / d / k \<Longrightarrow> max (min z (m / d * k)) (m / d / k) = m / d / k"
proof -
  define c where "c = m / d"
  have c: "0 < c" using assms by (simp add: c_def)
  have "c / k \<le> c" using c assms(2) by (simp add: field_simps)
  moreover have "c \<le> c * k" using c assms(2) by simp
  ultimately show o: "m / d / k \<le> m / d * k" by (simp add: c_def)
  show "m / d / k \<le> max (min z (m / d * k)) (m / d / k)" by simp
  show "max (min z (m / d * k)) (m / d / k) \<le> m / d * k" using o by simp
  show "m / d / k \<le> z \<Longrightarrow> z \<le> m / d * k \<Longrightarrow> max (min z (m / d * k)) (m / d / k) = z"
    by simp
  show "m / d * k < z \<Longrightarrow> max (min z (m / d * k)) (m / d / k) = m / d * k"
    using o by (simp add: min_def max_def)
  show "z < m / d / k \<Longrightarrow> max (min z (m / d * k)) (m / d / k) = m / d / k"
    using o by (simp add: min_def max_def)
qed

lemma clamp_upper_real:
  fixes m k d z :: real
  assumes "0 < m" "1 \<le> k" "d < 0"
  shows "m / d * k \<le> m / d / k"
    and "m / d * k \<le> max (min z (m / d / k)) (m / d * k)"
    and "max (min z (m / d / k)) (m / d * k) \<le> m / d / k"
    and "m / d * k \<le> z \<Longrightarrow> z \<le> m / d / k \<Longrightarrow> max (min z (m / d / k)) (m / d * k) = z"
    and "m / d / k < z \<Longrightarrow> max (min z (m / d / k)) (m / d * k) = m / d / k"
    and "z < m / d * k \<Longrightarrow> max (min z (m / d / k)) (m / d * k) = m / d * k"
proof -
  define c where "c = m / d"
  have c: "c < 0" using assms by (simp add: c_def divide_pos_neg)
  have "c \<le> c / k" using c assms(2) by (simp add: field_simps)
  moreover have "c * k \<le> c" using c assms(2) by (simp add: mult_le_cancel_left1)
  ultimately show o: "m / d * k \<le> m / d / k" by (simp add: c_def)
  show "m / d * k \<le> max (min z (m / d / k)) (m / d * k)" by simp
  show "max (min z (m / d / k)) (m / d * k) \<le> m / d / k" using o by simp
  show "m / d * k \<le> z \<Longrightarrow> z \<le> m / d / k \<Longrightarrow> max (min z (m / d / k)) (m / d * k) = z"
    by simp
  show "m / d / k < z \<Longrightarrow> max (min z (m / d / k)) (m / d * k) = m / d / k"
    using o by (simp add: min_def max_def)
  show "z < m / d * k \<Longrightarrow> max (min z (m / d / k)) (m / d * k) = m / d * k"
    using o by (simp add: min_def max_def)
qed

text \<open>
  C6. With a barrier parameter \<open>0 < m\<close> and \<open>1 \<le> k_sigma\<close>, and the index lists of the bounded
  variables without repetition: for a lower-bounded variable \<open>i\<close> strictly above its finite
  bound, with a finite multiplier \<open>z\<close>, \<open>postprocess_iterate\<close> clamps the multiplier into
  \<open>[c / k_sigma, c * k_sigma]\<close> where \<open>c = mu / (x i - x_L i)\<close>: the new multiplier is
  \<open>max(min(z, c * k_sigma), c / k_sigma)\<close>, which is \<open>z\<close> itself when \<open>z\<close> is in the interval,
  the upper end when \<open>z\<close> is above it and the lower end when \<open>z\<close> is below it. For an
  upper-bounded variable \<open>j\<close> strictly below its bound the same holds with the interval
  \<open>[c * k_sigma, c / k_sigma]\<close> and \<open>c = mu / (x j - x_U j)\<close>. The multipliers of the other
  variables, the constraint multipliers and every other field of the iterate are
  unchanged.
\<close>

theorem postprocess_iterate_clamps:
  assumes "distinct (lower_bounded_variables P)" "distinct (upper_bounded_variables P)"
    and "barrier_parameter S = Fin m" "0 < m" "k_sigma (parameters S) = Fin k" "1 \<le> k"
  shows "(i \<in> set (lower_bounded_variables P) \<and> i < length (lower_bounds (multipliers it))
          \<and> primals it ! i = Fin x \<and> get_variable_lower_bound P i = Fin l \<and> l < x
          \<and> lower_bounds (multipliers it) ! i = Fin z \<longrightarrow>
            (let c = barrier_parameter S / (primals it ! i - get_variable_lower_bound P i);
                 z' = lower_bounds (multipliers (postprocess_iterate S P it)) ! i
             in c / k_sigma (parameters S) \<le> z' \<and> z' \<le> c * k_sigma (parameters S)
                \<and> (c / k_sigma (parameters S) \<le> lower_bounds (multipliers it) ! i
                     \<and> lower_bounds (multipliers it) ! i \<le> c * k_sigma (parameters S)
                   \<longrightarrow> z' = lower_bounds (multipliers it) ! i)
                \<and> (c * k_sigma (parameters S) < lower_bounds (multipliers it) ! i
                   \<longrightarrow> z' = c * k_sigma (parameters S))
                \<and> (lower_bounds (multipliers it) ! i < c / k_sigma (parameters S)
                   \<longrightarrow> z' = c / k_sigma (parameters S))
                \<and> z' = std_max (std_min (lower_bounds (multipliers it) ! i)
                          (c * k_sigma (parameters S))) (c / k_sigma (parameters S))))
       \<and> (j \<in> set (upper_bounded_variables P) \<and> j < length (upper_bounds (multipliers it))
          \<and> primals it ! j = Fin y \<and> get_variable_upper_bound P j = Fin u \<and> y < u
          \<and> upper_bounds (multipliers it) ! j = Fin w \<longrightarrow>
            (let c = barrier_parameter S / (primals it ! j - get_variable_upper_bound P j);
                 w' = upper_bounds (multipliers (postprocess_iterate S P it)) ! j
             in c * k_sigma (parameters S) \<le> w' \<and> w' \<le> c / k_sigma (parameters S)
                \<and> (c * k_sigma (parameters S) \<le> upper_bounds (multipliers it) ! j
                     \<and> upper_bounds (multipliers it) ! j \<le> c / k_sigma (parameters S)
                   \<longrightarrow> w' = upper_bounds (multipliers it) ! j)
                \<and> (c / k_sigma (parameters S) < upper_bounds (multipliers it) ! j
                   \<longrightarrow> w' = c / k_sigma (parameters S))
                \<and> (upper_bounds (multipliers it) ! j < c * k_sigma (parameters S)
                   \<longrightarrow> w' = c * k_sigma (parameters S))
                \<and> w' = std_max (std_min (upper_bounds (multipliers it) ! j)
                          (c / k_sigma (parameters S))) (c * k_sigma (parameters S))))
       \<and> (i \<notin> set (lower_bounded_variables P) \<longrightarrow>
            lower_bounds (multipliers (postprocess_iterate S P it)) ! i
              = lower_bounds (multipliers it) ! i)
       \<and> (j \<notin> set (upper_bounded_variables P) \<longrightarrow>
            upper_bounds (multipliers (postprocess_iterate S P it)) ! j
              = upper_bounds (multipliers it) ! j)
       \<and> (postprocess_iterate S P it)\<lparr>multipliers := multipliers it\<rparr> = it
       \<and> constraints (multipliers (postprocess_iterate S P it)) = constraints (multipliers it)
       \<and> length (lower_bounds (multipliers (postprocess_iterate S P it)))
            = length (lower_bounds (multipliers it))
       \<and> length (upper_bounds (multipliers (postprocess_iterate S P it)))
            = length (upper_bounds (multipliers it))"
proof (intro conjI impI)
  assume h: "i \<in> set (lower_bounded_variables P) \<and> i < length (lower_bounds (multipliers it))
          \<and> primals it ! i = Fin x \<and> get_variable_lower_bound P i = Fin l \<and> l < x
          \<and> lower_bounds (multipliers it) ! i = Fin z"
  have d: "0 < x - l" "x - l \<noteq> 0" using h by simp_all
  have k0: "k \<noteq> 0" using assms(6) by simp
  note r1 = clamp_lower_real(1)[OF assms(4) assms(6) d(1)]
  note r = clamp_lower_real(2-6)[OF assms(4) assms(6) d(1), where z = z]
  have mem: "i \<in> set (lower_bounded_variables P)" "i < length (lower_bounds (multipliers it))"
    using h by simp_all
  have e: "lower_bounds (multipliers (postprocess_iterate S P it)) ! i
      = std_max (std_min (lower_bounds (multipliers it) ! i)
            (barrier_parameter S / (primals it ! i - get_variable_lower_bound P i) * k_sigma (parameters S)))
          (barrier_parameter S / (primals it ! i - get_variable_lower_bound P i) / k_sigma (parameters S))"
    using mem r1 h d(2) k0 by (simp add: postprocess_iterate_lower_nth[OF assms(1)] assms(3,5))
  have z': "lower_bounds (multipliers (postprocess_iterate S P it)) ! i
      = Fin (max (min z (m / (x - l) * k)) (m / (x - l) / k))"
    unfolding e using h d(2) k0 r1
    by (simp add: assms(3,5))
  have c: "barrier_parameter S / (primals it ! i - get_variable_lower_bound P i) / k_sigma (parameters S)
        = Fin (m / (x - l) / k)"
      "barrier_parameter S / (primals it ! i - get_variable_lower_bound P i) * k_sigma (parameters S)
        = Fin (m / (x - l) * k)"
    using h d(2) k0 by (simp_all add: assms(3,5))
  have zi: "lower_bounds (multipliers it) ! i = Fin z" using h by simp
  show "let c = barrier_parameter S / (primals it ! i - get_variable_lower_bound P i);
            z' = lower_bounds (multipliers (postprocess_iterate S P it)) ! i
        in c / k_sigma (parameters S) \<le> z' \<and> z' \<le> c * k_sigma (parameters S)
           \<and> (c / k_sigma (parameters S) \<le> lower_bounds (multipliers it) ! i
                \<and> lower_bounds (multipliers it) ! i \<le> c * k_sigma (parameters S)
              \<longrightarrow> z' = lower_bounds (multipliers it) ! i)
           \<and> (c * k_sigma (parameters S) < lower_bounds (multipliers it) ! i
              \<longrightarrow> z' = c * k_sigma (parameters S))
           \<and> (lower_bounds (multipliers it) ! i < c / k_sigma (parameters S)
              \<longrightarrow> z' = c / k_sigma (parameters S))
           \<and> z' = std_max (std_min (lower_bounds (multipliers it) ! i)
                     (c * k_sigma (parameters S))) (c / k_sigma (parameters S))"
    unfolding Let_def e[symmetric] unfolding z' c zi using r by simp
next
  assume h: "j \<in> set (upper_bounded_variables P) \<and> j < length (upper_bounds (multipliers it))
          \<and> primals it ! j = Fin y \<and> get_variable_upper_bound P j = Fin u \<and> y < u
          \<and> upper_bounds (multipliers it) ! j = Fin w"
  have d: "y - u < 0" "y - u \<noteq> 0" using h by simp_all
  have k0: "k \<noteq> 0" using assms(6) by simp
  note r1 = clamp_upper_real(1)[OF assms(4) assms(6) d(1)]
  note r = clamp_upper_real(2-6)[OF assms(4) assms(6) d(1), where z = w]
  have mem: "j \<in> set (upper_bounded_variables P)" "j < length (upper_bounds (multipliers it))"
    using h by simp_all
  have e: "upper_bounds (multipliers (postprocess_iterate S P it)) ! j
      = std_max (std_min (upper_bounds (multipliers it) ! j)
            (barrier_parameter S / (primals it ! j - get_variable_upper_bound P j) / k_sigma (parameters S)))
          (barrier_parameter S / (primals it ! j - get_variable_upper_bound P j) * k_sigma (parameters S))"
    using mem r1 h d(2) k0 by (simp add: postprocess_iterate_upper_nth[OF assms(2)] assms(3,5))
  have w': "upper_bounds (multipliers (postprocess_iterate S P it)) ! j
      = Fin (max (min w (m / (y - u) / k)) (m / (y - u) * k))"
    unfolding e using h d(2) k0 r1
    by (simp add: assms(3,5))
  have c: "barrier_parameter S / (primals it ! j - get_variable_upper_bound P j) / k_sigma (parameters S)
        = Fin (m / (y - u) / k)"
      "barrier_parameter S / (primals it ! j - get_variable_upper_bound P j) * k_sigma (parameters S)
        = Fin (m / (y - u) * k)"
    using h d(2) k0 by (simp_all add: assms(3,5))
  have wj: "upper_bounds (multipliers it) ! j = Fin w" using h by simp
  show "let c = barrier_parameter S / (primals it ! j - get_variable_upper_bound P j);
            w' = upper_bounds (multipliers (postprocess_iterate S P it)) ! j
        in c * k_sigma (parameters S) \<le> w' \<and> w' \<le> c / k_sigma (parameters S)
           \<and> (c * k_sigma (parameters S) \<le> upper_bounds (multipliers it) ! j
                \<and> upper_bounds (multipliers it) ! j \<le> c / k_sigma (parameters S)
              \<longrightarrow> w' = upper_bounds (multipliers it) ! j)
           \<and> (c / k_sigma (parameters S) < upper_bounds (multipliers it) ! j
              \<longrightarrow> w' = c / k_sigma (parameters S))
           \<and> (upper_bounds (multipliers it) ! j < c * k_sigma (parameters S)
              \<longrightarrow> w' = c * k_sigma (parameters S))
           \<and> w' = std_max (std_min (upper_bounds (multipliers it) ! j)
                     (c / k_sigma (parameters S))) (c * k_sigma (parameters S))"
    unfolding Let_def e[symmetric] unfolding w' c wj using r by simp
next
  assume "i \<notin> set (lower_bounded_variables P)"
  then show "lower_bounds (multipliers (postprocess_iterate S P it)) ! i
      = lower_bounds (multipliers it) ! i"
    by (simp add: postprocess_iterate_lower_nth[OF assms(1)])
next
  assume "j \<notin> set (upper_bounded_variables P)"
  then show "upper_bounds (multipliers (postprocess_iterate S P it)) ! j
      = upper_bounds (multipliers it) ! j"
    by (simp add: postprocess_iterate_upper_nth[OF assms(2)])
next
  show "(postprocess_iterate S P it)\<lparr>multipliers := multipliers it\<rparr> = it"
    by (simp add: postprocess_iterate_eq)
  show "constraints (multipliers (postprocess_iterate S P it)) = constraints (multipliers it)"
    by (simp add: postprocess_iterate_eq)
  show "length (lower_bounds (multipliers (postprocess_iterate S P it)))
            = length (lower_bounds (multipliers it))"
    by (simp add: postprocess_iterate_eq)
  show "length (upper_bounds (multipliers (postprocess_iterate S P it)))
            = length (upper_bounds (multipliers it))"
    by (simp add: postprocess_iterate_eq)
qed

theorem postprocess_iterate_clamps_witness:
  "lower_bounds (multipliers (postprocess_iterate example_subproblem example_problem
       (example_iterate\<lparr>multipliers := \<lparr>constraints = [], lower_bounds = [Fin 5],
          upper_bounds = [Fin (- 1)]\<rparr>\<rparr>))) ! 0 = Fin 2
   \<and> upper_bounds (multipliers (postprocess_iterate example_subproblem example_problem
       (example_iterate\<lparr>multipliers := \<lparr>constraints = [], lower_bounds = [Fin 5],
          upper_bounds = [Fin (- 1)]\<rparr>\<rparr>))) ! 0 = Fin (- 1)
   \<and> lower_bounds (multipliers (postprocess_iterate example_subproblem example_problem
       (example_iterate\<lparr>multipliers := \<lparr>constraints = [], lower_bounds = [Fin (1 / 100)],
          upper_bounds = [Fin (- 5)]\<rparr>\<rparr>))) ! 0 = Fin (1 / 50)
   \<and> upper_bounds (multipliers (postprocess_iterate example_subproblem example_problem
       (example_iterate\<lparr>multipliers := \<lparr>constraints = [], lower_bounds = [Fin (1 / 100)],
          upper_bounds = [Fin (- 5)]\<rparr>\<rparr>))) ! 0 = Fin (- 2)"
proof -
  define it where "it = example_iterate\<lparr>multipliers := \<lparr>constraints = [], lower_bounds = [Fin 5],
          upper_bounds = [Fin (- 1)]\<rparr>\<rparr>"
  define it2 where "it2 = example_iterate\<lparr>multipliers := \<lparr>constraints = [],
          lower_bounds = [Fin (1 / 100)], upper_bounds = [Fin (- 5)]\<rparr>\<rparr>"
  have pre: "distinct (lower_bounded_variables example_problem)"
    "distinct (upper_bounded_variables example_problem)"
    "barrier_parameter example_subproblem = Fin (1 / 10)" "(0::real) < 1 / 10"
    "k_sigma (parameters example_subproblem) = Fin 10" "(1::real) \<le> 10"
    by (simp_all add: example_problem_def example_subproblem_def example_parameters_def)
  note t = postprocess_iterate_clamps[OF pre, where it = it and i = 0 and j = 0
      and x = "1 / 2" and l = 0 and z = 5 and y = "1 / 2" and u = 1 and w = "- 1"]
  have 1: "lower_bounds (multipliers (postprocess_iterate example_subproblem example_problem it)) ! 0
      = Fin 2
   \<and> upper_bounds (multipliers (postprocess_iterate example_subproblem example_problem it)) ! 0
      = Fin (- 1)"
    using t
    by (simp add: it_def example_problem_def example_subproblem_def example_parameters_def
        example_iterate_def Let_def)
  note t2 = postprocess_iterate_clamps[OF pre, where it = it2 and i = 0 and j = 0
      and x = "1 / 2" and l = 0 and z = "1 / 100" and y = "1 / 2" and u = 1 and w = "- 5"]
  have 2: "lower_bounds (multipliers (postprocess_iterate example_subproblem example_problem it2)) ! 0
      = Fin (1 / 50)
   \<and> upper_bounds (multipliers (postprocess_iterate example_subproblem example_problem it2)) ! 0
      = Fin (- 2)"
    using t2
    by (simp add: it2_def example_problem_def example_subproblem_def example_parameters_def
        example_iterate_def Let_def)
  show ?thesis using 1 2 unfolding it_def it2_def by blast
qed

section \<open>Entering and leaving the feasibility problem\<close>














end
